theory Spec2Isabelle
  imports Main "HOL-Library.Word"
begin

section \<open>EVM values\<close>

text \<open>
  The contracts are Solidity 0.8 (\<open>pragma solidity ^0.8.28\<close>). Addresses, hashes and
  selectors are fixed-width words; a \<open>uint256\<close> is a natural number, with the revert of
  Solidity's checked arithmetic (\<open>Panic(0x11)\<close>) written out wherever the source adds.
  Calldata and signatures are byte lists.
\<close>

type_synonym address = "160 word"
type_synonym bytes32 = "256 word"
type_synonym bytes4 = "32 word"
type_synonym byte = "8 word"
type_synonym bytes = "byte list"
type_synonym uint256 = nat

definition MAX_UINT256 :: nat where
  "MAX_UINT256 = 2 ^ 256 - 1"

text \<open>
  Every revert of the modelled contracts: the custom errors the three contracts declare,
  \<open>Pausable\<close>'s \<open>EnforcedPause\<close>, \<open>Ownable\<close>'s \<open>OwnableUnauthorizedAccount\<close>,
  a \<open>require\<close> with its message, the arithmetic panic, a revert without data (an
  out-of-range calldata slice, a failed \<open>abi.decode\<close>) and the reverts of
  OpenZeppelin's \<open>ECDSA.recover\<close> and \<open>Initializable\<close>.
\<close>

datatype error =
    PortfolioNotFound
  | StrategyExpired
  | StrategyAlreadyExecuted
  | InvalidTEESignature
  | RebalanceTooFrequent
  | UnauthorizedCaller
  | InvalidParameters
  | EnforcedPause
  | ExpectedPause
  | OwnableUnauthorizedAccount address
  | NotOwner
  | InvalidSignature
  | DailyLimitExceeded
  | SelectorNotWhitelisted
  | InvalidTarget
  | Require string
  | Panic nat
  | EmptyRevert
  | ECDSAError
  | InvalidInitialization

definition checked_add :: "uint256 \<Rightarrow> uint256 \<Rightarrow> error + uint256" where
  "checked_add a b = (if a + b \<le> MAX_UINT256 then Inr (a + b) else Inl (Panic 17))"

text \<open>Big-endian reading of a byte string, as \<open>calldataload\<close> and \<open>bytesN\<close> casts do.\<close>

definition be_nat :: "bytes \<Rightarrow> nat" where
  "be_nat bs = foldl (\<lambda>acc b. acc * 256 + unat b) 0 bs"

text \<open>\<open>data[i:j]\<close> on a byte string that is known to be long enough.\<close>

definition slice :: "nat \<Rightarrow> nat \<Rightarrow> bytes \<Rightarrow> bytes" where
  "slice i j bs = take (j - i) (drop i bs)"

text \<open>
  \<open>calldataload(data.offset + off)\<close>: the 32 bytes from \<open>off\<close> on. A read that passes
  the end of \<open>data\<close> continues into the padding of its ABI encoding, which is zero in
  the encoding the EntryPoint produces.
\<close>

definition calldataload :: "bytes \<Rightarrow> nat \<Rightarrow> bytes32" where
  "calldataload bs off = word_of_nat (be_nat (take 32 (drop off bs @ replicate 32 0)))"

text \<open>
  A transaction that reverts leaves the contract's storage as it was; one that returns
  commits the storage it computed.
\<close>

definition commit :: "'s \<Rightarrow> error + 's \<times> 'e \<Rightarrow> 's" where
  "commit s r = (case r of Inl e \<Rightarrow> s | Inr (s', evs) \<Rightarrow> s')"

section \<open>PhantomVault\<close>

record Portfolio =
  owner :: address
  protectedDataId :: bytes32
  lastAnalysis :: uint256
  riskScore :: uint256
  autoRebalance :: bool
  rebalanceThreshold :: uint256
  createdAt :: uint256

record Strategy =
  strategyHash :: bytes32
  targetAssets :: "address list"
  allocations :: "uint256 list"
  teeSignature :: bytes
  validUntil :: uint256
  executed :: bool

record RiskReport =
  portfolioScore :: uint256
  concentrationRisk :: uint256
  protocolRisk :: uint256
  correlationRisk :: uint256
  liquidityRisk :: uint256
  leverageRatio :: uint256
  timestamp :: uint256
  teeAttestation :: bytes

text \<open>
  The storage of the vault. A Solidity mapping is total: a key never written holds the
  zero value of its type. \<open>vault_owner\<close> and \<open>paused\<close> are the storage of the inherited
  \<open>Ownable\<close> and \<open>Pausable\<close>. The fee settings, the workerpool and the token rescue
  touch none of the modelled fields and are left out.
\<close>

record PhantomVault =
  portfolios :: "address \<Rightarrow> Portfolio"
  strategies :: "bytes32 \<Rightarrow> Strategy"
  riskHistory :: "address \<Rightarrow> RiskReport list"
  trustedIApp :: address
  minRebalanceInterval :: uint256
  totalPortfolios :: uint256
  totalStrategiesExecuted :: uint256
  vault_owner :: address
  paused :: bool

datatype vault_event =
    PortfolioCreated address bytes32 uint256
  | PortfolioUpdated address bytes32 uint256
  | RiskAnalysisCompleted address uint256 uint256 bytes32
  | StrategySubmitted address bytes32 uint256
  | StrategyExecuted address bytes32 uint256
  | AutoRebalanceTriggered address bytes32 uint256
  | TrustedIAppUpdated address address
  | Paused address
  | Unpaused address

text \<open>
  The EVM primitives the vault calls, as parameters: \<open>strategy_keccak\<close> is
  \<open>keccak256(abi.encode(msg.sender, targetAssets, allocations, block.timestamp))\<close>,
  \<open>report_digest\<close> and \<open>strategy_digest\<close> are the prefixed message hashes of
  \<open>_verifyTEESignature\<close> and \<open>_verifyStrategySignature\<close>, \<open>report_keccak\<close> is
  \<open>keccak256(abi.encode(report))\<close> and \<open>ecrecover\<close> is the precompile.
\<close>

record vault_env =
  strategy_keccak :: "address \<Rightarrow> address list \<Rightarrow> uint256 list \<Rightarrow> uint256 \<Rightarrow> bytes32"
  report_digest :: "address \<Rightarrow> RiskReport \<Rightarrow> bytes32"
  strategy_digest :: "address \<Rightarrow> bytes32 \<Rightarrow> address list \<Rightarrow> bytes32"
  report_keccak :: "RiskReport \<Rightarrow> bytes32"
  ecrecover :: "bytes32 \<Rightarrow> byte \<Rightarrow> bytes32 \<Rightarrow> bytes32 \<Rightarrow> address"

definition zero_Portfolio :: Portfolio where
  "zero_Portfolio = \<lparr>owner = 0, protectedDataId = 0, lastAnalysis = 0, riskScore = 0,
     autoRebalance = False, rebalanceThreshold = 0, createdAt = 0\<rparr>"

definition zero_Strategy :: Strategy where
  "zero_Strategy = \<lparr>strategyHash = 0, targetAssets = [], allocations = [],
     teeSignature = [], validUntil = 0, executed = False\<rparr>"

definition PhantomVault_constructor :: "address \<Rightarrow> address \<Rightarrow> PhantomVault" where
  "PhantomVault_constructor msg_sender trustedIApp0 =
     \<lparr>portfolios = (\<lambda>_. zero_Portfolio), strategies = (\<lambda>_. zero_Strategy),
      riskHistory = (\<lambda>_. []), trustedIApp = trustedIApp0, minRebalanceInterval = 3600,
      totalPortfolios = 0, totalStrategiesExecuted = 0, vault_owner = msg_sender,
      paused = False\<rparr>"

definition createPortfolio ::
  "address \<Rightarrow> uint256 \<Rightarrow> bytes32 \<Rightarrow> bool \<Rightarrow> uint256 \<Rightarrow> PhantomVault
     \<Rightarrow> error + PhantomVault \<times> vault_event list" where
  "createPortfolio msg_sender now dataId autoReb threshold s =
     (if paused s then Inl EnforcedPause
      else if dataId = 0 then Inl InvalidParameters
      else if threshold > 5000 then Inl InvalidParameters
      else case checked_add (totalPortfolios s) 1 of
        Inl e \<Rightarrow> Inl e
      | Inr n \<Rightarrow>
          Inr (s\<lparr>portfolios := (portfolios s)(msg_sender :=
                    \<lparr>owner = msg_sender, protectedDataId = dataId, lastAnalysis = 0,
                     riskScore = 0, autoRebalance = autoReb,
                     rebalanceThreshold = threshold, createdAt = now\<rparr>),
                 totalPortfolios := n\<rparr>,
               [PortfolioCreated msg_sender dataId now]))"

definition updatePortfolio ::
  "address \<Rightarrow> uint256 \<Rightarrow> bytes32 \<Rightarrow> bool \<Rightarrow> uint256 \<Rightarrow> PhantomVault
     \<Rightarrow> error + PhantomVault \<times> vault_event list" where
  "updatePortfolio msg_sender now newDataId autoReb threshold s =
     (if paused s then Inl EnforcedPause
      else let portfolio = portfolios s msg_sender in
        if owner portfolio = 0 then Inl PortfolioNotFound
        else
          let p1 = (if newDataId \<noteq> 0 then portfolio\<lparr>protectedDataId := newDataId\<rparr>
                    else portfolio);
              p2 = p1\<lparr>autoRebalance := autoReb\<rparr>;
              p3 = p2\<lparr>rebalanceThreshold := threshold\<rparr>
          in Inr (s\<lparr>portfolios := (portfolios s)(msg_sender := p3)\<rparr>,
                  [PortfolioUpdated msg_sender newDataId now]))"

text \<open>
  \<open>_recoverSigner\<close>: the \<open>require\<close> on the length, then \<open>r\<close>, \<open>s\<close> and \<open>v\<close> read
  from the three calldata words and handed to \<open>ecrecover\<close>.
\<close>

definition recoverSigner ::
  "(bytes32 \<Rightarrow> byte \<Rightarrow> bytes32 \<Rightarrow> bytes32 \<Rightarrow> address) \<Rightarrow> bytes32 \<Rightarrow> bytes \<Rightarrow> error + address" where
  "recoverSigner ecrec messageHash signature =
     (if length signature \<noteq> 65 then Inl (Require ''Invalid signature length'')
      else
        let r = word_of_nat (be_nat (slice 0 32 signature)) :: bytes32;
            s = word_of_nat (be_nat (slice 32 64 signature)) :: bytes32;
            v = signature ! 64
        in Inr (ecrec messageHash v r s))"

definition verifyTEESignature ::
  "vault_env \<Rightarrow> address \<Rightarrow> RiskReport \<Rightarrow> bytes \<Rightarrow> PhantomVault \<Rightarrow> error + bool" where
  "verifyTEESignature E user report signature s =
     (case recoverSigner (ecrecover E) (report_digest E user report) signature of
        Inl e \<Rightarrow> Inl e
      | Inr recovered \<Rightarrow> Inr (recovered = trustedIApp s))"

definition verifyStrategySignature ::
  "vault_env \<Rightarrow> address \<Rightarrow> Strategy \<Rightarrow> bytes \<Rightarrow> PhantomVault \<Rightarrow> error + bool" where
  "verifyStrategySignature E user strategy signature s =
     (case recoverSigner (ecrecover E)
             (strategy_digest E user (strategyHash strategy) (targetAssets strategy))
             signature of
        Inl e \<Rightarrow> Inl e
      | Inr recovered \<Rightarrow> Inr (recovered = trustedIApp s))"

definition submitRiskAnalysis ::
  "vault_env \<Rightarrow> uint256 \<Rightarrow> address \<Rightarrow> RiskReport \<Rightarrow> bytes \<Rightarrow> PhantomVault
     \<Rightarrow> error + PhantomVault \<times> vault_event list" where
  "submitRiskAnalysis E now user report signature s =
     (if paused s then Inl EnforcedPause
      else case verifyTEESignature E user report signature s of
        Inl e \<Rightarrow> Inl e
      | Inr ok \<Rightarrow>
          if \<not> ok then Inl InvalidTEESignature
          else let portfolio = portfolios s user in
            if owner portfolio = 0 then Inl PortfolioNotFound
            else
              Inr (s\<lparr>portfolios := (portfolios s)(user :=
                        portfolio\<lparr>lastAnalysis := now,
                                  riskScore := portfolioScore report\<rparr>),
                     riskHistory := (riskHistory s)(user := riskHistory s user @ [report])\<rparr>,
                   [RiskAnalysisCompleted user (portfolioScore report) now
                      (report_keccak E report)]))"

text \<open>\<open>submitStrategy\<close> returns the fingerprint together with the new storage.\<close>

definition submitStrategy ::
  "vault_env \<Rightarrow> address \<Rightarrow> uint256 \<Rightarrow> address list \<Rightarrow> uint256 list \<Rightarrow> bytes \<Rightarrow> uint256
     \<Rightarrow> PhantomVault \<Rightarrow> error + (PhantomVault \<times> bytes32) \<times> vault_event list" where
  "submitStrategy E msg_sender now assets allocs signature validityPeriod s =
     (if paused s then Inl EnforcedPause
      else if length assets \<noteq> length allocs then Inl InvalidParameters
      else if validityPeriod > 86400 then Inl InvalidParameters
      else if owner (portfolios s msg_sender) = 0 then Inl PortfolioNotFound
      else
        let h = strategy_keccak E msg_sender assets allocs now in
        case checked_add now validityPeriod of
          Inl e \<Rightarrow> Inl e
        | Inr deadline \<Rightarrow>
            Inr ((s\<lparr>strategies := (strategies s)(h :=
                       \<lparr>strategyHash = h, targetAssets = assets, allocations = allocs,
                        teeSignature = signature, validUntil = deadline,
                        executed = False\<rparr>)\<rparr>, h),
                 [StrategySubmitted msg_sender h deadline]))"

text \<open>
  \<open>executeStrategy\<close>. \<open>nonReentrant\<close> never fires: \<open>_executeRebalance\<close> is empty, so
  no call leaves the contract while the guard is set. \<open>msg.sender\<close> reaches the event
  only.
\<close>

definition executeStrategy ::
  "address \<Rightarrow> uint256 \<Rightarrow> bytes32 \<Rightarrow> PhantomVault \<Rightarrow> error + PhantomVault \<times> vault_event list" where
  "executeStrategy msg_sender now h s =
     (if paused s then Inl EnforcedPause
      else let strategy = strategies s h in
        if strategyHash strategy = 0 then Inl InvalidParameters
        else if executed strategy then Inl StrategyAlreadyExecuted
        else if now > validUntil strategy then Inl StrategyExpired
        else case checked_add (totalStrategiesExecuted s) 1 of
          Inl e \<Rightarrow> Inl e
        | Inr n \<Rightarrow>
            Inr (s\<lparr>strategies := (strategies s)(h := strategy\<lparr>executed := True\<rparr>),
                   totalStrategiesExecuted := n\<rparr>,
                 [StrategyExecuted msg_sender h now]))"

definition triggerAutoRebalance ::
  "vault_env \<Rightarrow> uint256 \<Rightarrow> address \<Rightarrow> uint256 \<Rightarrow> Strategy \<Rightarrow> bytes \<Rightarrow> PhantomVault
     \<Rightarrow> error + PhantomVault \<times> vault_event list" where
  "triggerAutoRebalance E now user deviation strategy signature s =
     (if paused s then Inl EnforcedPause
      else let portfolio = portfolios s user in
        if \<not> autoRebalance portfolio then Inl UnauthorizedCaller
        else if deviation < rebalanceThreshold portfolio then Inl InvalidParameters
        else case checked_add (lastAnalysis portfolio) (minRebalanceInterval s) of
          Inl e \<Rightarrow> Inl e
        | Inr earliest \<Rightarrow>
            (if now < earliest then Inl RebalanceTooFrequent
             else case verifyStrategySignature E user strategy signature s of
               Inl e \<Rightarrow> Inl e
             | Inr ok \<Rightarrow>
                 (if \<not> ok then Inl InvalidTEESignature
                  else case checked_add (totalStrategiesExecuted s) 1 of
                    Inl e \<Rightarrow> Inl e
                  | Inr n \<Rightarrow>
                      Inr (s\<lparr>strategies := (strategies s)(strategyHash strategy :=
                                strategy\<lparr>executed := True\<rparr>),
                             totalStrategiesExecuted := n\<rparr>,
                           [AutoRebalanceTriggered user (strategyHash strategy) deviation]))))"

definition isStrategyValid :: "uint256 \<Rightarrow> bytes32 \<Rightarrow> PhantomVault \<Rightarrow> bool" where
  "isStrategyValid now h s =
     (let strategy = strategies s h in
      strategyHash strategy \<noteq> 0 \<and> \<not> executed strategy \<and> now \<le> validUntil strategy)"

definition getPortfolio :: "address \<Rightarrow> PhantomVault \<Rightarrow> Portfolio" where
  "getPortfolio user s = portfolios s user"

definition onlyOwner_vault :: "address \<Rightarrow> PhantomVault \<Rightarrow> bool" where
  "onlyOwner_vault msg_sender s = (msg_sender = vault_owner s)"

definition setTrustedIApp ::
  "address \<Rightarrow> address \<Rightarrow> PhantomVault \<Rightarrow> error + PhantomVault \<times> vault_event list" where
  "setTrustedIApp msg_sender newIApp s =
     (if \<not> onlyOwner_vault msg_sender s then Inl (OwnableUnauthorizedAccount msg_sender)
      else Inr (s\<lparr>trustedIApp := newIApp\<rparr>, [TrustedIAppUpdated (trustedIApp s) newIApp]))"

definition setMinRebalanceInterval ::
  "address \<Rightarrow> uint256 \<Rightarrow> PhantomVault \<Rightarrow> error + PhantomVault \<times> vault_event list" where
  "setMinRebalanceInterval msg_sender interval s =
     (if \<not> onlyOwner_vault msg_sender s then Inl (OwnableUnauthorizedAccount msg_sender)
      else Inr (s\<lparr>minRebalanceInterval := interval\<rparr>, []))"

definition pause ::
  "address \<Rightarrow> PhantomVault \<Rightarrow> error + PhantomVault \<times> vault_event list" where
  "pause msg_sender s =
     (if \<not> onlyOwner_vault msg_sender s then Inl (OwnableUnauthorizedAccount msg_sender)
      else if paused s then Inl EnforcedPause
      else Inr (s\<lparr>paused := True\<rparr>, [Paused msg_sender]))"

definition unpause ::
  "address \<Rightarrow> PhantomVault \<Rightarrow> error + PhantomVault \<times> vault_event list" where
  "unpause msg_sender s =
     (if \<not> onlyOwner_vault msg_sender s then Inl (OwnableUnauthorizedAccount msg_sender)
      else if \<not> paused s then Inl ExpectedPause
      else Inr (s\<lparr>paused := False\<rparr>, [Unpaused msg_sender]))"

text \<open>
  One transaction on the vault. \<open>vault_step\<close> keeps the storage a successful call
  leaves; \<open>vault_run\<close> applies a sequence of transactions, a reverted one leaving the
  storage as it was.
\<close>

datatype vault_op =
    CreatePortfolio address uint256 bytes32 bool uint256
  | UpdatePortfolio address uint256 bytes32 bool uint256
  | SubmitRiskAnalysis uint256 address RiskReport bytes
  | SubmitStrategy address uint256 "address list" "uint256 list" bytes uint256
  | ExecuteStrategy address uint256 bytes32
  | TriggerAutoRebalance uint256 address uint256 Strategy bytes
  | SetTrustedIApp address address
  | SetMinRebalanceInterval address uint256
  | Pause address
  | Unpause address

fun vault_step :: "vault_env \<Rightarrow> vault_op \<Rightarrow> PhantomVault \<Rightarrow> error + PhantomVault" where
  "vault_step E (CreatePortfolio c t d a th) s = map_sum id fst (createPortfolio c t d a th s)"
| "vault_step E (UpdatePortfolio c t d a th) s = map_sum id fst (updatePortfolio c t d a th s)"
| "vault_step E (SubmitRiskAnalysis t u r sg) s = map_sum id fst (submitRiskAnalysis E t u r sg s)"
| "vault_step E (SubmitStrategy c t as al sg p) s =
     map_sum id (fst \<circ> fst) (submitStrategy E c t as al sg p s)"
| "vault_step E (ExecuteStrategy c t h) s = map_sum id fst (executeStrategy c t h s)"
| "vault_step E (TriggerAutoRebalance t u d st sg) s =
     map_sum id fst (triggerAutoRebalance E t u d st sg s)"
| "vault_step E (SetTrustedIApp c a) s = map_sum id fst (setTrustedIApp c a s)"
| "vault_step E (SetMinRebalanceInterval c i) s = map_sum id fst (setMinRebalanceInterval c i s)"
| "vault_step E (Pause c) s = map_sum id fst (pause c s)"
| "vault_step E (Unpause c) s = map_sum id fst (unpause c s)"

fun vault_run :: "vault_env \<Rightarrow> vault_op list \<Rightarrow> PhantomVault \<Rightarrow> PhantomVault" where
  "vault_run E [] s = s"
| "vault_run E (op # ops) s =
     vault_run E ops (case vault_step E op s of Inl e \<Rightarrow> s | Inr s' \<Rightarrow> s')"

text \<open>A \<open>submitStrategy\<close> whose computed fingerprint is \<open>h\<close>.\<close>

fun submits :: "vault_env \<Rightarrow> bytes32 \<Rightarrow> vault_op \<Rightarrow> bool" where
  "submits E h (SubmitStrategy c t as al sg p) = (strategy_keccak E c as al t = h)"
| "submits E h _ = False"

section \<open>PhantomAccount\<close>

text \<open>
  \<open>session_validUntil\<close> is the struct's \<open>validUntil\<close>, \<open>account_owner\<close> the
  contract's \<open>owner\<close> and \<open>account_phantomVault\<close> its immutable \<open>phantomVault\<close>
  (the names are taken by the vault's records). \<open>initialized\<close> is the flag of
  OpenZeppelin's \<open>Initializable\<close>.
\<close>

record SessionKey =
  key :: address
  session_validUntil :: uint256
  spendLimit :: uint256
  spent :: uint256
  allowedTargets :: "address list"
  allowedSelectors :: "bytes4 list"
  active :: bool

record PhantomAccount =
  account_phantomVault :: address
  account_owner :: address
  sessionKeys :: "address \<Rightarrow> SessionKey"
  activeSessionKeys :: "address list"
  initialized :: bool

record PackedUserOperation =
  sender :: address
  nonce :: uint256
  initCode :: bytes
  callData :: bytes
  accountGasLimits :: bytes32
  preVerificationGas :: uint256
  gasFees :: bytes32
  paymasterAndData :: bytes
  signature :: bytes

datatype account_event =
    SessionKeyCreated address uint256 uint256
  | SessionKeyRevoked address

text \<open>
  What the account takes from its imports: \<open>MessageHashUtils.toEthSignedMessageHash\<close>,
  \<open>ECDSA.recover\<close> (which reverts on a malformed signature), the selector of the
  inherited \<open>BaseAccount.execute\<close>, and \<open>bytes4(keccak256(sig))\<close> of a function
  signature.
\<close>

record account_env =
  toEthSignedMessageHash :: "bytes32 \<Rightarrow> bytes32"
  ECDSA_recover :: "bytes32 \<Rightarrow> bytes \<Rightarrow> error + address"
  execute_selector :: bytes4
  selector_of :: "string \<Rightarrow> bytes4"

definition SIG_VALIDATION_FAILED :: uint256 where
  "SIG_VALIDATION_FAILED = 1"

definition zero_SessionKey :: SessionKey where
  "zero_SessionKey = \<lparr>key = 0, session_validUntil = 0, spendLimit = 0, spent = 0,
     allowedTargets = [], allowedSelectors = [], active = False\<rparr>"

text \<open>The storage of a fresh proxy, before \<open>initialize\<close>.\<close>

definition fresh_account :: "address \<Rightarrow> PhantomAccount" where
  "fresh_account vault = \<lparr>account_phantomVault = vault, account_owner = 0,
     sessionKeys = (\<lambda>_. zero_SessionKey), activeSessionKeys = [], initialized = False\<rparr>"

definition initialize :: "address \<Rightarrow> PhantomAccount \<Rightarrow> error + PhantomAccount" where
  "initialize owner0 acc =
     (if initialized acc then Inl InvalidInitialization
      else Inr (acc\<lparr>account_owner := owner0, initialized := True\<rparr>))"

text \<open>\<open>abi.decode(word, (address))\<close>: the decoder reverts when the upper 96 bits are set.\<close>

definition abi_decode_address :: "bytes \<Rightarrow> error + address" where
  "abi_decode_address bs =
     (let w = be_nat bs in if w < 2 ^ 160 then Inr (word_of_nat w) else Inl EmptyRevert)"

text \<open>The \<open>for\<close> loop over \<open>session.allowedTargets\<close>, with its \<open>break\<close>.\<close>

fun targetAllowed :: "address list \<Rightarrow> address \<Rightarrow> bool" where
  "targetAllowed [] target = False"
| "targetAllowed (t # ts) target = (if t = target then True else targetAllowed ts target)"

definition validateSessionKeyOp ::
  "account_env \<Rightarrow> SessionKey \<Rightarrow> PackedUserOperation \<Rightarrow> error + bool" where
  "validateSessionKeyOp E session userOp =
     (if length (callData userOp) < 4 then Inr False
      else
        let selector = word_of_nat (be_nat (slice 0 4 (callData userOp))) :: bytes4 in
        if selector = execute_selector E then
          (if length (callData userOp) < 36 then Inr False
           else case abi_decode_address (slice 4 36 (callData userOp)) of
             Inl e \<Rightarrow> Inl e
           | Inr target \<Rightarrow>
               if \<not> targetAllowed (allowedTargets session) target then Inr False
               else Inr True)
        else Inr True)"

definition validateSignature ::
  "account_env \<Rightarrow> uint256 \<Rightarrow> PackedUserOperation \<Rightarrow> bytes32 \<Rightarrow> PhantomAccount
     \<Rightarrow> error + uint256" where
  "validateSignature E now userOp userOpHash acc =
     (let hash = toEthSignedMessageHash E userOpHash in
      if length (signature userOp) < 65 then Inr SIG_VALIDATION_FAILED
      else case ECDSA_recover E hash (signature userOp) of
        Inl e \<Rightarrow> Inl e
      | Inr recovered \<Rightarrow>
          if recovered = account_owner acc then Inr 0
          else
            let session = sessionKeys acc recovered in
            if active session \<and> now \<le> session_validUntil session then
              (case validateSessionKeyOp E session userOp of
                 Inl e \<Rightarrow> Inl e
               | Inr ok \<Rightarrow> if \<not> ok then Inr SIG_VALIDATION_FAILED else Inr 0)
            else Inr SIG_VALIDATION_FAILED)"

definition createSessionKey ::
  "address \<Rightarrow> address \<Rightarrow> uint256 \<Rightarrow> uint256 \<Rightarrow> address list \<Rightarrow> bytes4 list \<Rightarrow> PhantomAccount
     \<Rightarrow> error + PhantomAccount \<times> account_event list" where
  "createSessionKey msg_sender k until limit targets selectors acc =
     (if msg_sender \<noteq> account_owner acc then Inl NotOwner
      else
        Inr (acc\<lparr>sessionKeys := (sessionKeys acc)(k :=
                    \<lparr>key = k, session_validUntil = until, spendLimit = limit, spent = 0,
                     allowedTargets = targets, allowedSelectors = selectors,
                     active = True\<rparr>),
                  activeSessionKeys := activeSessionKeys acc @ [k]\<rparr>,
             [SessionKeyCreated k until limit]))"

definition createPhantomSessionKey ::
  "account_env \<Rightarrow> address \<Rightarrow> uint256 \<Rightarrow> address \<Rightarrow> uint256 \<Rightarrow> PhantomAccount
     \<Rightarrow> error + PhantomAccount \<times> account_event list" where
  "createPhantomSessionKey E msg_sender now k duration acc =
     (if msg_sender \<noteq> account_owner acc then Inl NotOwner
      else case checked_add now duration of
        Inl e \<Rightarrow> Inl e
      | Inr until \<Rightarrow>
          Inr (acc\<lparr>sessionKeys := (sessionKeys acc)(k :=
                      \<lparr>key = k, session_validUntil = until, spendLimit = MAX_UINT256,
                       spent = 0, allowedTargets = [account_phantomVault acc],
                       allowedSelectors =
                         [selector_of E ''executeStrategy(bytes32)'',
                          selector_of E ''submitStrategy(address[],uint256[],bytes,uint256)''],
                       active = True\<rparr>),
                    activeSessionKeys := activeSessionKeys acc @ [k]\<rparr>,
               [SessionKeyCreated k until MAX_UINT256]))"

definition revokeSessionKey ::
  "address \<Rightarrow> address \<Rightarrow> PhantomAccount \<Rightarrow> error + PhantomAccount \<times> account_event list" where
  "revokeSessionKey msg_sender k acc =
     (if msg_sender \<noteq> account_owner acc then Inl NotOwner
      else
        Inr (acc\<lparr>sessionKeys := (sessionKeys acc)(k := (sessionKeys acc k)\<lparr>active := False\<rparr>)\<rparr>,
             [SessionKeyRevoked k]))"

definition getSessionKey :: "address \<Rightarrow> PhantomAccount \<Rightarrow> SessionKey" where
  "getSessionKey k acc = sessionKeys acc k"

definition isSessionKeyActive :: "uint256 \<Rightarrow> address \<Rightarrow> PhantomAccount \<Rightarrow> bool" where
  "isSessionKeyActive now k acc =
     (let session = sessionKeys acc k in active session \<and> now \<le> session_validUntil session)"

section \<open>PhantomPaymaster\<close>

text \<open>
  \<open>paymaster_phantomVault\<close> is the contract's \<open>phantomVault\<close> and \<open>paymaster_owner\<close>
  the owner of the inherited \<open>BasePaymaster\<close>.
\<close>

record PhantomPaymaster =
  verifyingSigner :: address
  paymaster_phantomVault :: address
  sponsoredTxCount :: "address \<Rightarrow> uint256"
  maxDailySponsored :: uint256
  dailyResetTime :: "address \<Rightarrow> uint256"
  whitelistedSelectors :: "bytes4 \<Rightarrow> bool"
  paymaster_owner :: address

text \<open>
  What the paymaster takes from its imports and from the chain:
  \<open>PAYMASTER_DATA_OFFSET\<close> (a constant of the account-abstraction library),
  \<open>getHash_keccak\<close> for \<open>keccak256(abi.encode(sender, nonce, keccak256(callData),
  chainid, this, validUntil, validAfter))\<close>, \<open>chainid\<close>, \<open>this\<close>, the prefixed hash,
  \<open>ECDSA.recover\<close> and \<open>bytes4(keccak256(sig))\<close>.
\<close>

record paymaster_env =
  PAYMASTER_DATA_OFFSET :: nat
  getHash_keccak :: "address \<Rightarrow> uint256 \<Rightarrow> bytes \<Rightarrow> uint256 \<Rightarrow> address \<Rightarrow> nat \<Rightarrow> nat \<Rightarrow> bytes32"
  chainid :: uint256
  this :: address
  paymaster_toEthSignedMessageHash :: "bytes32 \<Rightarrow> bytes32"
  paymaster_recover :: "bytes32 \<Rightarrow> bytes \<Rightarrow> error + address"
  paymaster_selector_of :: "string \<Rightarrow> bytes4"

definition PhantomPaymaster_constructor ::
  "paymaster_env \<Rightarrow> address \<Rightarrow> address \<Rightarrow> address \<Rightarrow> PhantomPaymaster" where
  "PhantomPaymaster_constructor E owner0 signer vault =
     \<lparr>verifyingSigner = signer, paymaster_phantomVault = vault,
      sponsoredTxCount = (\<lambda>_. 0), maxDailySponsored = 10, dailyResetTime = (\<lambda>_. 0),
      whitelistedSelectors =
        ((\<lambda>_. False)
          (paymaster_selector_of E ''createPortfolio(bytes32,bool,uint256)'' := True,
           paymaster_selector_of E ''updatePortfolio(bytes32,bool,uint256)'' := True,
           paymaster_selector_of E ''executeStrategy(bytes32)'' := True,
           paymaster_selector_of E ''submitStrategy(address[],uint256[],bytes,uint256)'' := True)),
      paymaster_owner = owner0\<rparr>"

definition getHash ::
  "paymaster_env \<Rightarrow> PackedUserOperation \<Rightarrow> nat \<Rightarrow> nat \<Rightarrow> bytes32" where
  "getHash E userOp validUntil48 validAfter48 =
     getHash_keccak E (sender userOp) (nonce userOp) (callData userOp) (chainid E) (this E)
       validUntil48 validAfter48"

text \<open>
  \<open>_getTarget\<close>: the word loaded at offset 16 of the call data, assigned to an
  \<open>address\<close>, which keeps its low 160 bits. \<open>_getSelector\<close>: the word at offset 0,
  assigned to a \<open>bytes4\<close>, which keeps its high 4 bytes.
\<close>

definition getTarget :: "bytes \<Rightarrow> address" where
  "getTarget cd = (if length cd \<ge> 36 then ucast (calldataload cd 16) else 0)"

definition getSelector :: "bytes \<Rightarrow> bytes4" where
  "getSelector cd = (if length cd \<ge> 4 then ucast (drop_bit 224 (calldataload cd 0)) else 0)"

definition checkAndUpdateDailyLimit ::
  "address \<Rightarrow> uint256 \<Rightarrow> PhantomPaymaster \<Rightarrow> error + PhantomPaymaster" where
  "checkAndUpdateDailyLimit user now s =
     (let resetTime = dailyResetTime s user in
      case checked_add resetTime 86400 of
        Inl e \<Rightarrow> Inl e
      | Inr windowEnd \<Rightarrow>
          (if now > windowEnd then
             Inr (s\<lparr>dailyResetTime := (dailyResetTime s)(user := now),
                    sponsoredTxCount := (sponsoredTxCount s)(user := 1)\<rparr>)
           else if sponsoredTxCount s user \<ge> maxDailySponsored s then Inl DailyLimitExceeded
           else case checked_add (sponsoredTxCount s user) 1 of
             Inl e \<Rightarrow> Inl e
           | Inr n \<Rightarrow> Inr (s\<lparr>sponsoredTxCount := (sponsoredTxCount s)(user := n)\<rparr>)))"

text \<open>\<open>_packValidationData(false, validUntil, validAfter)\<close> of the library's helpers.\<close>

definition packValidationData :: "bool \<Rightarrow> nat \<Rightarrow> nat \<Rightarrow> uint256" where
  "packValidationData sigFailed validUntil48 validAfter48 =
     (if sigFailed then 1 else 0) + validUntil48 * 2 ^ 160 + validAfter48 * 2 ^ 208"

text \<open>
  \<open>_validatePaymasterUserOp\<close> returns the context \<open>(sender, maxCost)\<close> and the
  validation data; the storage it leaves comes first in the result.
\<close>

definition validatePaymasterUserOp ::
  "paymaster_env \<Rightarrow> uint256 \<Rightarrow> PackedUserOperation \<Rightarrow> uint256 \<Rightarrow> PhantomPaymaster
     \<Rightarrow> error + PhantomPaymaster \<times> ((address \<times> uint256) \<times> uint256)" where
  "validatePaymasterUserOp E now userOp maxCost s =
     (if length (paymasterAndData userOp) < PAYMASTER_DATA_OFFSET E then Inl EmptyRevert
      else
        let paymasterData = drop (PAYMASTER_DATA_OFFSET E) (paymasterAndData userOp) in
        if length paymasterData < 77 then Inl (Require ''Invalid paymaster data length'')
        else
          let sg = slice 0 65 paymasterData;
              validUntil48 = be_nat (slice 65 71 paymasterData);
              validAfter48 = be_nat (slice 71 77 paymasterData);
              hash = getHash E userOp validUntil48 validAfter48
          in case paymaster_recover E (paymaster_toEthSignedMessageHash E hash) sg of
            Inl e \<Rightarrow> Inl e
          | Inr recovered \<Rightarrow>
              (if recovered \<noteq> verifyingSigner s then Inl InvalidSignature
               else if getTarget (callData userOp) \<noteq> paymaster_phantomVault s
                 then Inl InvalidTarget
               else if \<not> whitelistedSelectors s (getSelector (callData userOp))
                 then Inl SelectorNotWhitelisted
               else case checkAndUpdateDailyLimit (sender userOp) now s of
                 Inl e \<Rightarrow> Inl e
               | Inr s' \<Rightarrow>
                   Inr (s', ((sender userOp, maxCost),
                             packValidationData False validUntil48 validAfter48))))"

definition setVerifyingSigner ::
  "address \<Rightarrow> address \<Rightarrow> PhantomPaymaster \<Rightarrow> error + PhantomPaymaster \<times> unit" where
  "setVerifyingSigner msg_sender newSigner s =
     (if msg_sender \<noteq> paymaster_owner s then Inl (OwnableUnauthorizedAccount msg_sender)
      else Inr (s\<lparr>verifyingSigner := newSigner\<rparr>, ()))"

definition setPhantomVault ::
  "address \<Rightarrow> address \<Rightarrow> PhantomPaymaster \<Rightarrow> error + PhantomPaymaster \<times> unit" where
  "setPhantomVault msg_sender vault s =
     (if msg_sender \<noteq> paymaster_owner s then Inl (OwnableUnauthorizedAccount msg_sender)
      else Inr (s\<lparr>paymaster_phantomVault := vault\<rparr>, ()))"

definition setMaxDailySponsored ::
  "address \<Rightarrow> uint256 \<Rightarrow> PhantomPaymaster \<Rightarrow> error + PhantomPaymaster \<times> unit" where
  "setMaxDailySponsored msg_sender max0 s =
     (if msg_sender \<noteq> paymaster_owner s then Inl (OwnableUnauthorizedAccount msg_sender)
      else Inr (s\<lparr>maxDailySponsored := max0\<rparr>, ()))"

definition whitelistSelector ::
  "address \<Rightarrow> bytes4 \<Rightarrow> bool \<Rightarrow> PhantomPaymaster \<Rightarrow> error + PhantomPaymaster \<times> unit" where
  "whitelistSelector msg_sender selector status s =
     (if msg_sender \<noteq> paymaster_owner s then Inl (OwnableUnauthorizedAccount msg_sender)
      else Inr (s\<lparr>whitelistedSelectors := (whitelistedSelectors s)(selector := status)\<rparr>, ()))"

text \<open>
  The paymaster data (what follows the fixed prefix of \<open>paymasterAndData\<close>) and the
  co-signature test of \<open>_validatePaymasterUserOp\<close>, named for the statements below:
  the signature is bytes 0 to 65 of the data, the validity window bytes 65 to 77.
\<close>

definition paymasterData :: "paymaster_env \<Rightarrow> PackedUserOperation \<Rightarrow> bytes" where
  "paymasterData E userOp = drop (PAYMASTER_DATA_OFFSET E) (paymasterAndData userOp)"

definition cosigned :: "paymaster_env \<Rightarrow> PackedUserOperation \<Rightarrow> PhantomPaymaster \<Rightarrow> bool" where
  "cosigned E userOp s =
     (paymaster_recover E
        (paymaster_toEthSignedMessageHash E
           (getHash E userOp (be_nat (slice 65 71 (paymasterData E userOp)))
              (be_nat (slice 71 77 (paymasterData E userOp)))))
        (slice 0 65 (paymasterData E userOp))
      = Inr (verifyingSigner s))"

text \<open>One transaction on the paymaster, and a sequence of them.\<close>

datatype paymaster_op =
    Validate uint256 PackedUserOperation uint256
  | SetVerifyingSigner address address
  | SetPhantomVault address address
  | SetMaxDailySponsored address uint256
  | WhitelistSelector address bytes4 bool

fun paymaster_step ::
  "paymaster_env \<Rightarrow> paymaster_op \<Rightarrow> PhantomPaymaster \<Rightarrow> error + PhantomPaymaster" where
  "paymaster_step E (Validate t userOp maxCost) s =
     map_sum id fst (validatePaymasterUserOp E t userOp maxCost s)"
| "paymaster_step E (SetVerifyingSigner c a) s = map_sum id fst (setVerifyingSigner c a s)"
| "paymaster_step E (SetPhantomVault c a) s = map_sum id fst (setPhantomVault c a s)"
| "paymaster_step E (SetMaxDailySponsored c m) s = map_sum id fst (setMaxDailySponsored c m s)"
| "paymaster_step E (WhitelistSelector c sel b) s = map_sum id fst (whitelistSelector c sel b s)"

fun paymaster_run ::
  "paymaster_env \<Rightarrow> paymaster_op list \<Rightarrow> PhantomPaymaster \<Rightarrow> PhantomPaymaster" where
  "paymaster_run E [] s = s"
| "paymaster_run E (op # ops) s =
     paymaster_run E ops (case paymaster_step E op s of Inl e \<Rightarrow> s | Inr s' \<Rightarrow> s')"

text \<open>
  A transaction keeps the cap when it is not a \<open>setMaxDailySponsored\<close> of the owner
  that sets the maximum to 0 or below a count stored at that moment; a sequence keeps
  the cap when each of its transactions does, in the storage it runs on.
\<close>

fun cap_kept :: "paymaster_op \<Rightarrow> PhantomPaymaster \<Rightarrow> bool" where
  "cap_kept (SetMaxDailySponsored c m) s =
     (c = paymaster_owner s \<longrightarrow> 1 \<le> m \<and> (\<forall>v. sponsoredTxCount s v \<le> m))"
| "cap_kept _ s = True"

fun cap_kept_run :: "paymaster_env \<Rightarrow> paymaster_op list \<Rightarrow> PhantomPaymaster \<Rightarrow> bool" where
  "cap_kept_run E [] s = True"
| "cap_kept_run E (op # ops) s =
     (cap_kept op s
      \<and> cap_kept_run E ops (case paymaster_step E op s of Inl e \<Rightarrow> s | Inr s' \<Rightarrow> s'))"

section \<open>PhantomAccountFactory\<close>

text \<open>
  The factory's storage together with the part of the chain it writes: \<open>agents\<close> holds
  the storage of every deployed account proxy, and an address has code
  (\<open>addr.code.length > 0\<close>) exactly when an agent is deployed there.
\<close>

record PhantomAccountFactory =
  accountImplementation :: address
  factory_phantomVault :: address
  ownerToAccount :: "address \<Rightarrow> address"
  totalAccounts :: uint256
  agents :: "address \<Rightarrow> PhantomAccount option"

text \<open>
  \<open>create2_address deployer salt codeHash\<close> is the address rule of \<open>CREATE2\<close>, which
  \<open>Create2.computeAddress\<close> computes and the \<open>new ERC1967Proxy{salt: ...}\<close> of
  \<open>createAccount\<close> deploys to; \<open>proxy_initcode_hash implementation owner\<close> is the hash
  of the proxy's creation code followed by its constructor arguments.
\<close>

record factory_env =
  create2_address :: "address \<Rightarrow> bytes32 \<Rightarrow> bytes32 \<Rightarrow> address"
  proxy_initcode_hash :: "address \<Rightarrow> address \<Rightarrow> bytes32"
  factory_this :: address

datatype factory_event = AccountCreated address address uint256

definition getAddress ::
  "factory_env \<Rightarrow> address \<Rightarrow> uint256 \<Rightarrow> PhantomAccountFactory \<Rightarrow> address" where
  "getAddress E owner0 salt f =
     create2_address E (factory_this E) (word_of_nat salt)
       (proxy_initcode_hash E (accountImplementation f) owner0)"

definition createAccount ::
  "factory_env \<Rightarrow> address \<Rightarrow> uint256 \<Rightarrow> PhantomAccountFactory
     \<Rightarrow> error + (PhantomAccountFactory \<times> address) \<times> factory_event list" where
  "createAccount E owner0 salt f =
     (let addr = getAddress E owner0 salt f in
      if agents f addr \<noteq> None then Inr ((f, addr), [])
      else
        let account = create2_address E (factory_this E) (word_of_nat salt)
                        (proxy_initcode_hash E (accountImplementation f) owner0)
        in case initialize owner0 (fresh_account (factory_phantomVault f)) of
          Inl e \<Rightarrow> Inl e
        | Inr agent \<Rightarrow>
            (case checked_add (totalAccounts f) 1 of
               Inl e \<Rightarrow> Inl e
             | Inr n \<Rightarrow>
                 Inr ((f\<lparr>agents := (agents f)(account := Some agent),
                         ownerToAccount := (ownerToAccount f)(owner0 := account),
                         totalAccounts := n\<rparr>, account),
                      [AccountCreated owner0 account salt])))"

definition accountExists :: "address \<Rightarrow> PhantomAccountFactory \<Rightarrow> bool" where
  "accountExists owner0 f = (ownerToAccount f owner0 \<noteq> 0)"

section \<open>Sample transactions\<close>

text \<open>
  Concrete instances on which the model is evaluated. The primitives are stand-ins:
  the fingerprint is a deterministic function of the four values the source hashes,
  \<open>ecrecover\<close> returns a fixed address, and \<open>ECDSA.recover\<close> returns the address
  named by the first byte of a 65-byte signature, so a signature of the sample
  transactions is "by" the address in its first byte.
\<close>

definition alice :: address where
  "alice = 10"

definition bob :: address where
  "bob = 11"

definition sample_env :: vault_env where
  "sample_env = \<lparr>strategy_keccak = (\<lambda>c as al t. word_of_nat (Suc (unat c + t + length as))),
     report_digest = (\<lambda>u r. 0), strategy_digest = (\<lambda>u h as. 0), report_keccak = (\<lambda>r. 0),
     ecrecover = (\<lambda>h v r s. 2)\<rparr>"

text \<open>The vault as deployed by address 1 with attester 2, then with Alice's portfolio.\<close>

definition vault0 :: PhantomVault where
  "vault0 = PhantomVault_constructor 1 2"

definition vault1 :: PhantomVault where
  "vault1 = commit vault0 (createPortfolio alice 50 7 False 100 vault0)"

text \<open>The same vault after Bob created a portfolio with automatic rebalancing.\<close>

definition vault_auto :: PhantomVault where
  "vault_auto = commit vault1 (createPortfolio bob 101 9 True 200 vault1)"

text \<open>
  Alice submits a strategy at time 100 for 10 seconds (fingerprint 111), Bob executes
  it in the same block, and Alice submits the same strategy again in that block.
\<close>

definition resubmission :: "vault_op list" where
  "resubmission = [SubmitStrategy alice 100 [] [] [] 10, ExecuteStrategy bob 100 111,
                   SubmitStrategy alice 100 [] [] [] 10]"


definition sample_account_env :: account_env where
  "sample_account_env = \<lparr>toEthSignedMessageHash = (\<lambda>h. h),
     ECDSA_recover = (\<lambda>h sg. if length sg = 65 then Inr (word_of_nat (unat (hd sg)))
                              else Inl ECDSAError),
     execute_selector = 0xb61d27f6,
     selector_of = (\<lambda>sg. word_of_nat (length sg))\<rparr>"

text \<open>A 32-byte ABI word holding a number below 256.\<close>

definition word32 :: "nat \<Rightarrow> bytes" where
  "word32 n = replicate 31 0 @ [word_of_nat n]"

text \<open>
  Alice's initialised account for the vault at address 5, and the same account after
  she created the session key 20: valid until 1000, target list \<open>[5]\<close>, selector list
  \<open>[0x11223344]\<close>.
\<close>

definition sample_account :: PhantomAccount where
  "sample_account = \<lparr>account_phantomVault = 5, account_owner = alice,
     sessionKeys = (\<lambda>_. zero_SessionKey), activeSessionKeys = [], initialized = True\<rparr>"

definition keyed_account :: PhantomAccount where
  "keyed_account = commit sample_account
     (createSessionKey alice 20 1000 0 [5] [0x11223344] sample_account)"

text \<open>The account after Alice revoked the session key 20.\<close>

definition revoked_account :: PhantomAccount where
  "revoked_account = commit keyed_account (revokeSessionKey alice 20 keyed_account)"

text \<open>
  A user operation signed by the session key 20: \<open>execute(5, 0, data)\<close> where \<open>data\<close>
  starts with the selector \<open>0xdeadbeef\<close>. In the ABI encoding the inner call's
  selector is bytes 132 to 136 of the call data.
\<close>

definition foreign_call :: PackedUserOperation where
  "foreign_call = \<lparr>sender = 30, nonce = 0, initCode = [],
     callData = [0xb6, 0x1d, 0x27, 0xf6] @ word32 5 @ word32 0 @ word32 96 @ word32 4
                @ [0xde, 0xad, 0xbe, 0xef] @ replicate 28 0,
     accountGasLimits = 0, preVerificationGas = 0, gasFees = 0, paymasterAndData = [],
     signature = 20 # replicate 64 0\<rparr>"

definition sample_paymaster_env :: paymaster_env where
  "sample_paymaster_env = \<lparr>PAYMASTER_DATA_OFFSET = 52,
     getHash_keccak = (\<lambda>a n cd ch th vu va. 0), chainid = 421614, this = 40,
     paymaster_toEthSignedMessageHash = (\<lambda>h. h),
     paymaster_recover = (\<lambda>h sg. if length sg = 65 then Inr (word_of_nat (unat (hd sg)))
                                  else Inl ECDSAError),
     paymaster_selector_of = (\<lambda>sg. word_of_nat (length sg))\<rparr>"

definition sample_vault_address :: address where
  "sample_vault_address = 0x1111111111111111111111111111111111111111"

text \<open>The paymaster as deployed: owner 1, verifying signer 3.\<close>

definition paymaster0 :: PhantomPaymaster where
  "paymaster0 = PhantomPaymaster_constructor sample_paymaster_env 1 3 sample_vault_address"

text \<open>
  A user operation of sender 30, co-signed by the verifying signer 3. Its call data
  starts with a whitelisted selector (the stand-in for \<open>executeStrategy(bytes32)\<close> is
  \<open>0x18\<close>), and bytes 16 to 48 are all \<open>0x11\<close>, so that the address word of the ABI
  encoding and the word \<open>_getTarget\<close> reads both give the vault's address.
\<close>

definition sponsored_call :: PackedUserOperation where
  "sponsored_call = \<lparr>sender = 30, nonce = 0, initCode = [],
     callData = [0, 0, 0, 0x18] @ replicate 12 0
        @ [0x11, 0x11, 0x11, 0x11, 0x11, 0x11, 0x11, 0x11, 0x11, 0x11,
           0x11, 0x11, 0x11, 0x11, 0x11, 0x11, 0x11, 0x11, 0x11, 0x11]
        @ [0x11, 0x11, 0x11, 0x11, 0x11, 0x11, 0x11, 0x11, 0x11, 0x11, 0x11, 0x11]
        @ replicate 20 0,
     accountGasLimits = 0, preVerificationGas = 0, gasFees = 0,
     paymasterAndData = replicate 52 0 @ (3 # replicate 64 0) @ [0, 0, 0, 0, 0, 200]
        @ [0, 0, 0, 0, 0, 0],
     signature = []\<rparr>"

text \<open>
  A user operation of sender 30, co-signed by the verifying signer 3, whose call data
  is the ABI encoding of \<open>execute(vault, 0, data)\<close>: the selector of \<open>execute\<close>, the
  vault's address as a 32-byte word, the value 0, and \<open>data\<close>, a call of the function
  with the whitelisted selector \<open>0x18\<close> on the argument 7. The paymaster
  \<open>paymaster_execute\<close> is the deployed one after its owner whitelisted the selector of
  \<open>execute\<close> as well.
\<close>

definition execute_call :: PackedUserOperation where
  "execute_call = \<lparr>sender = 30, nonce = 0, initCode = [],
     callData = [0xb6, 0x1d, 0x27, 0xf6] @ replicate 12 0
        @ [0x11, 0x11, 0x11, 0x11, 0x11, 0x11, 0x11, 0x11, 0x11, 0x11,
           0x11, 0x11, 0x11, 0x11, 0x11, 0x11, 0x11, 0x11, 0x11, 0x11]
        @ word32 0 @ word32 96 @ word32 36 @ [0, 0, 0, 0x18] @ word32 7 @ replicate 28 0,
     accountGasLimits = 0, preVerificationGas = 0, gasFees = 0,
     paymasterAndData = replicate 52 0 @ (3 # replicate 64 0) @ [0, 0, 0, 0, 0, 200]
        @ [0, 0, 0, 0, 0, 0],
     signature = []\<rparr>"

definition paymaster_execute :: PhantomPaymaster where
  "paymaster_execute = commit paymaster0 (whitelistSelector 1 0xb61d27f6 True paymaster0)"

text \<open>Three sponsored operations of sender 30 in one day, then the maximum set to 2.\<close>

definition lowered_cap :: "paymaster_op list" where
  "lowered_cap = [Validate 100000 sponsored_call 0, Validate 100001 sponsored_call 0,
                  Validate 100002 sponsored_call 0, SetMaxDailySponsored 1 2]"

text \<open>The maximum set to 0, then an operation of sender 30 in a new day window.\<close>

definition zero_cap :: "paymaster_op list" where
  "zero_cap = [SetMaxDailySponsored 1 0, Validate 100000 sponsored_call 0]"

text \<open>
  Three sponsored operations of sender 30 in one day, the maximum set to 5, and a
  fourth operation.
\<close>

definition adjusted_cap :: "paymaster_op list" where
  "adjusted_cap = [Validate 100000 sponsored_call 0, Validate 100001 sponsored_call 0,
                   Validate 100002 sponsored_call 0, SetMaxDailySponsored 1 5,
                   Validate 100003 sponsored_call 0]"

text \<open>Three sponsored operations of sender 30 in one day, then the maximum set to 3.\<close>

definition full_cap :: "paymaster_op list" where
  "full_cap = [Validate 100000 sponsored_call 0, Validate 100001 sponsored_call 0,
               Validate 100002 sponsored_call 0, SetMaxDailySponsored 1 3]"

definition sample_factory_env :: factory_env where
  "sample_factory_env = \<lparr>create2_address = (\<lambda>d salt h. word_of_nat (unat d + unat salt + unat h)),
     proxy_initcode_hash = (\<lambda>impl owner0. word_of_nat (unat impl + unat owner0)),
     factory_this = 50\<rparr>"

text \<open>
  The factory at address 50 with implementation 51 and no account deployed, and the
  same factory with Alice's account for salt 7.
\<close>

definition factory0 :: PhantomAccountFactory where
  "factory0 = \<lparr>accountImplementation = 51, factory_phantomVault = 5,
     ownerToAccount = (\<lambda>_. 0), totalAccounts = 0, agents = (\<lambda>_. None)\<rparr>"

definition factory1 :: PhantomAccountFactory where
  "factory1 = factory0\<lparr>agents := (agents factory0)(118 :=
                  Some ((fresh_account 5)\<lparr>account_owner := alice, initialized := True\<rparr>)),
                ownerToAccount := (ownerToAccount factory0)(alice := 118),
                totalAccounts := 1\<rparr>"

section \<open>Reading bytes\<close>

lemma be_nat_Nil [simp]: "be_nat [] = 0"
  by (simp add: be_nat_def)

lemma be_nat_append: "be_nat (xs @ ys) = be_nat xs * 256 ^ length ys + be_nat ys"
  by (induction ys rule: rev_induct) (simp_all add: be_nat_def algebra_simps)

lemma be_nat_Cons: "be_nat (b # bs) = unat b * 256 ^ length bs + be_nat bs"
  using be_nat_append[of "[b]" bs] by (simp add: be_nat_def)

lemma be_nat_replicate0 [simp]: "be_nat (replicate n 0) = 0"
  by (induction n) (simp_all add: be_nat_Cons)

section \<open>Properties of the vault\<close>

lemmas vault_defs = createPortfolio_def updatePortfolio_def submitRiskAnalysis_def
  submitStrategy_def executeStrategy_def triggerAutoRebalance_def setTrustedIApp_def
  setMinRebalanceInterval_def pause_def unpause_def onlyOwner_vault_def

lemmas sample_vault_defs = sample_env_def alice_def bob_def vault0_def vault1_def
  PhantomVault_constructor_def commit_def checked_add_def MAX_UINT256_def Let_def
  zero_Portfolio_def zero_Strategy_def

text \<open>
  No transaction other than a \<open>submitStrategy\<close> that computes the fingerprint \<open>h\<close>
  resets the executed flag of \<open>h\<close>; for a non-zero \<open>h\<close> the record also stays known.
\<close>

lemma step_keeps_executed_flag:
  assumes "vault_step E op s = Inr s'" and "executed (strategies s h)" and "\<not> submits E h op"
  shows "executed (strategies s' h)"
  using assms
  by (cases op) (auto simp: vault_defs Let_def checked_add_def split: if_splits sum.splits)

lemma step_keeps_known:
  assumes "vault_step E op s = Inr s'" and "strategyHash (strategies s h) \<noteq> 0"
    and "\<not> submits E h op" and "h \<noteq> 0"
  shows "strategyHash (strategies s' h) \<noteq> 0"
  using assms
  by (cases op) (auto simp: vault_defs Let_def checked_add_def split: if_splits sum.splits)

lemma run_keeps_executed_flag:
  assumes "executed (strategies s h)" and "\<forall>op \<in> set ops. \<not> submits E h op"
  shows "executed (strategies (vault_run E ops s) h)"
  using assms
proof (induction ops arbitrary: s)
  case Nil
  then show ?case by simp
next
  case (Cons op ops)
  have rest: "\<forall>op \<in> set ops. \<not> submits E h op" using Cons.prems(2) by simp
  show ?case
  proof (cases "vault_step E op s")
    case (Inl e)
    with Cons.IH[OF Cons.prems(1) rest] show ?thesis by simp
  next
    case (Inr s')
    from Cons.prems(2) have "\<not> submits E h op" by simp
    from step_keeps_executed_flag[OF Inr Cons.prems(1) this]
    have "executed (strategies s' h)" .
    from Cons.IH[OF this rest] Inr show ?thesis by simp
  qed
qed

lemma run_keeps_known:
  assumes "strategyHash (strategies s h) \<noteq> 0" and "\<forall>op \<in> set ops. \<not> submits E h op"
    and "h \<noteq> 0"
  shows "strategyHash (strategies (vault_run E ops s) h) \<noteq> 0"
  using assms
proof (induction ops arbitrary: s)
  case Nil
  then show ?case by simp
next
  case (Cons op ops)
  have rest: "\<forall>op \<in> set ops. \<not> submits E h op" using Cons.prems(2) by simp
  show ?case
  proof (cases "vault_step E op s")
    case (Inl e)
    with Cons.IH[OF Cons.prems(1) rest Cons.prems(3)] show ?thesis by simp
  next
    case (Inr s')
    from Cons.prems(2) have "\<not> submits E h op" by simp
    from step_keeps_known[OF Inr Cons.prems(1) this Cons.prems(3)]
    have "strategyHash (strategies s' h) \<noteq> 0" .
    from Cons.IH[OF this rest Cons.prems(3)] Inr show ?thesis by simp
  qed
qed

text \<open>
  A resubmission resets the flag whatever the hash function is: the second
  \<open>submitStrategy\<close> of the same sender, arrays and timestamp computes the same
  fingerprint and stores a record with \<open>executed = false\<close>.
\<close>

lemma resubmission_resets_executed:
  assumes "submitStrategy E c t as al sg p s = Inr ((s', h), evs)"
  shows "\<not> executed (strategies s' h) \<and> h = strategy_keccak E c as al t"
  using assms
  by (auto simp: submitStrategy_def Let_def checked_add_def split: if_splits)

text \<open>
  \<open>triggerAutoRebalance\<close> stores the strategy it is given as executed and never
  reads its deadline.
\<close>

lemma triggerAutoRebalance_marks_executed:
  assumes "triggerAutoRebalance E now user deviation strategy sg s = Inr (s', evs)"
  shows "executed (strategies s' (strategyHash strategy))
           \<and> validUntil (strategies s' (strategyHash strategy)) = validUntil strategy"
  using assms
  by (auto simp: triggerAutoRebalance_def Let_def split: if_splits sum.splits)




text \<open>
  C4. The claim: every stored portfolio's threshold is at most 5000, and
  \<open>updatePortfolio\<close> rejects a larger one with \<open>InvalidParameters\<close> as
  \<open>createPortfolio\<close> does. The code of \<open>updatePortfolio\<close> has no such check: on
  Alice's portfolio (threshold 100) the update with threshold 6000 succeeds and 6000 is
  stored.
\<close>

theorem C4_updatePortfolio_stores_threshold_above_5000:
  "rebalanceThreshold (getPortfolio alice vault1) = 100
   \<and> (case updatePortfolio alice 60 0 False 6000 vault1 of
         Inl e \<Rightarrow> False
       | Inr (s', evs) \<Rightarrow> rebalanceThreshold (getPortfolio alice s') = 6000)
   \<and> createPortfolio alice 60 7 False 6000 vault1 = Inl InvalidParameters"
  by (simp add: sample_vault_defs vault_defs getPortfolio_def)

text \<open>
  On every existing portfolio of an unpaused vault \<open>updatePortfolio\<close> succeeds and
  stores the threshold it is given, whatever its size.
\<close>

lemma updatePortfolio_stores_any_threshold:
  assumes "\<not> paused s" and "owner (portfolios s c) \<noteq> 0"
  shows "\<exists>s' evs. updatePortfolio c t d a th s = Inr (s', evs)
           \<and> rebalanceThreshold (portfolios s' c) = th"
  using assms by (simp add: updatePortfolio_def Let_def)

text \<open>
  C5, as amended. \<open>isStrategyValid\<close> is true exactly when the strategy is known, not
  executed and not past its deadline. Once \<open>executeStrategy\<close> has succeeded on a
  non-zero fingerprint \<open>h\<close>, then after every sequence of transactions in which no
  \<open>submitStrategy\<close> computes \<open>h\<close> again, \<open>isStrategyValid\<close> is false at every time
  and \<open>executeStrategy\<close> on \<open>h\<close> fails: with \<open>StrategyAlreadyExecuted\<close> when the
  vault is not paused, with \<open>EnforcedPause\<close> when it is.
\<close>

theorem C5_valid_iff_and_single_execution:
  "(isStrategyValid now h0 s0 \<longleftrightarrow>
      strategyHash (strategies s0 h0) \<noteq> 0 \<and> \<not> executed (strategies s0 h0)
      \<and> now \<le> validUntil (strategies s0 h0))
   \<and> (executeStrategy c t h s = Inr (s', evs) \<and> h \<noteq> 0
        \<and> (\<forall>op \<in> set ops. \<not> submits E h op)
      \<longrightarrow> \<not> isStrategyValid t' h (vault_run E ops s')
          \<and> executeStrategy c' t' h (vault_run E ops s') =
              Inl (if paused (vault_run E ops s') then EnforcedPause
                   else StrategyAlreadyExecuted))"
proof (intro conjI impI)
  show "isStrategyValid now h0 s0 \<longleftrightarrow>
      strategyHash (strategies s0 h0) \<noteq> 0 \<and> \<not> executed (strategies s0 h0)
      \<and> now \<le> validUntil (strategies s0 h0)"
    by (simp add: isStrategyValid_def Let_def)
next
  assume a: "executeStrategy c t h s = Inr (s', evs) \<and> h \<noteq> 0
        \<and> (\<forall>op \<in> set ops. \<not> submits E h op)"
  then have "executed (strategies s' h)" "strategyHash (strategies s' h) \<noteq> 0"
    by (auto simp: executeStrategy_def Let_def split: if_splits sum.splits)
  with a have k: "executed (strategies (vault_run E ops s') h)"
    "strategyHash (strategies (vault_run E ops s') h) \<noteq> 0"
    using run_keeps_executed_flag[of s' h ops E] run_keeps_known[of s' h ops E] by blast+
  from k show "\<not> isStrategyValid t' h (vault_run E ops s')"
    by (simp add: isStrategyValid_def Let_def)
  from k show "executeStrategy c' t' h (vault_run E ops s') =
                Inl (if paused (vault_run E ops s') then EnforcedPause
                     else StrategyAlreadyExecuted)"
    by (simp add: executeStrategy_def Let_def)
qed

text \<open>
  The theorem at the sample vault: Bob executes strategy 111 at time 100; after a
  new portfolio, a pause and an unpause it is not valid at time 105 and Alice's
  execute call fails with \<open>StrategyAlreadyExecuted\<close>.
\<close>

theorem C5_valid_iff_and_single_execution_witness:
  "executeStrategy bob 100 111 (vault_run sample_env (take 1 resubmission) vault1)
     = Inr (vault_run sample_env (take 2 resubmission) vault1, [StrategyExecuted bob 111 100])
   \<and> isStrategyValid 100 111 (vault_run sample_env (take 1 resubmission) vault1)
   \<and> \<not> isStrategyValid 105 111
        (vault_run sample_env [CreatePortfolio bob 101 9 True 200, Pause 1, Unpause 1]
          (vault_run sample_env (take 2 resubmission) vault1))
   \<and> executeStrategy alice 105 111
        (vault_run sample_env [CreatePortfolio bob 101 9 True 200, Pause 1, Unpause 1]
          (vault_run sample_env (take 2 resubmission) vault1))
       = Inl StrategyAlreadyExecuted"
proof -
  let ?s = "vault_run sample_env (take 1 resubmission) vault1"
  let ?s' = "vault_run sample_env (take 2 resubmission) vault1"
  let ?ops = "[CreatePortfolio bob 101 9 True 200, Pause 1, Unpause 1]"
  have a: "executeStrategy bob 100 111 ?s = Inr (?s', [StrategyExecuted bob 111 100])"
    by (simp add: resubmission_def sample_vault_defs vault_defs)
  have b: "\<forall>op \<in> set ?ops. \<not> submits sample_env 111 op" by simp
  have c: "(111 :: bytes32) \<noteq> 0" by simp
  have d: "isStrategyValid 100 111 ?s"
    by (simp add: resubmission_def sample_vault_defs vault_defs isStrategyValid_def)
  have e: "\<not> paused (vault_run sample_env ?ops ?s')"
    by (simp add: resubmission_def sample_vault_defs vault_defs)
  show ?thesis
    using a b c d e
      C5_valid_iff_and_single_execution[of 100 111 ?s bob 100 111 ?s ?s'
        "[StrategyExecuted bob 111 100]" ?ops sample_env 105 alice]
    by simp
qed

text \<open>
  The claim as stated fails. After the three transactions of \<open>resubmission\<close> the
  strategy that Bob executed at time 100 is valid again at time 105, and a second
  execute call on the same fingerprint succeeds.
\<close>

theorem C5_counterexample:
  "isStrategyValid 100 111 (vault_run sample_env (take 1 resubmission) vault1)
   \<and> \<not> isStrategyValid 100 111 (vault_run sample_env (take 2 resubmission) vault1)
   \<and> isStrategyValid 105 111 (vault_run sample_env resubmission vault1)
   \<and> \<not> isl (executeStrategy bob 105 111 (vault_run sample_env resubmission vault1))"
  by (simp add: resubmission_def sample_vault_defs vault_defs isStrategyValid_def)

text \<open>
  C6, as amended. On a signature whose length is not 65 bytes \<open>_recoverSigner\<close>
  reverts with the message \<open>Invalid signature length\<close>; it returns no address. Its
  callers never compare a signer on such a signature: \<open>submitRiskAnalysis\<close> reverts
  with that message on every unpaused vault (with \<open>EnforcedPause\<close> on a paused one);
  \<open>triggerAutoRebalance\<close> never succeeds and never fails with
  \<open>InvalidTEESignature\<close>, and it reverts with that message whenever the checks before
  its signature check pass (the vault is not paused, the owner's auto-rebalance flag is
  set, the deviation is at least the threshold, and the minimum interval since the last
  analysis has elapsed). On a signature of exactly 65 bytes \<open>_recoverSigner\<close> does not
  revert: it returns \<open>ecrecover(messageHash, v, r, s)\<close> with \<open>r\<close> the bytes 0 to 32,
  \<open>s\<close> the bytes 32 to 64 and \<open>v\<close> the byte 64 of the signature.
\<close>

theorem C6_recoverSigner_reverts_on_length:
  "(length sg \<noteq> 65 \<longrightarrow>
      recoverSigner ecrec h sg = Inl (Require ''Invalid signature length'')
      \<and> submitRiskAnalysis E now user report sg s =
          Inl (if paused s then EnforcedPause else Require ''Invalid signature length'')
      \<and> (\<forall>r. triggerAutoRebalance E now user deviation strategy sg s \<noteq> Inr r)
      \<and> triggerAutoRebalance E now user deviation strategy sg s \<noteq> Inl InvalidTEESignature
      \<and> (\<not> paused s \<and> autoRebalance (portfolios s user)
           \<and> rebalanceThreshold (portfolios s user) \<le> deviation
           \<and> lastAnalysis (portfolios s user) + minRebalanceInterval s \<le> MAX_UINT256
           \<and> lastAnalysis (portfolios s user) + minRebalanceInterval s \<le> now
          \<longrightarrow> triggerAutoRebalance E now user deviation strategy sg s =
                Inl (Require ''Invalid signature length'')))
   \<and> (length sg' = 65 \<longrightarrow>
        recoverSigner ecrec h sg' =
          Inr (ecrec h (sg' ! 64) (word_of_nat (be_nat (take 32 sg')))
                 (word_of_nat (be_nat (take 32 (drop 32 sg'))))))"
proof (intro conjI impI)
  assume len: "length sg \<noteq> 65"
  show "recoverSigner ecrec h sg = Inl (Require ''Invalid signature length'')"
    using len by (simp add: recoverSigner_def)
  show "submitRiskAnalysis E now user report sg s =
          Inl (if paused s then EnforcedPause else Require ''Invalid signature length'')"
    using len by (simp add: submitRiskAnalysis_def verifyTEESignature_def recoverSigner_def)
  have v: "verifyStrategySignature E user strategy sg s
             = Inl (Require ''Invalid signature length'')"
    using len by (simp add: verifyStrategySignature_def recoverSigner_def)
  show "\<forall>r. triggerAutoRebalance E now user deviation strategy sg s \<noteq> Inr r"
    by (simp add: triggerAutoRebalance_def v Let_def split: sum.splits)
  show "triggerAutoRebalance E now user deviation strategy sg s \<noteq> Inl InvalidTEESignature"
    by (simp add: triggerAutoRebalance_def v checked_add_def Let_def split: sum.splits)
  show "triggerAutoRebalance E now user deviation strategy sg s =
          Inl (Require ''Invalid signature length'')"
    if "\<not> paused s \<and> autoRebalance (portfolios s user)
           \<and> rebalanceThreshold (portfolios s user) \<le> deviation
           \<and> lastAnalysis (portfolios s user) + minRebalanceInterval s \<le> MAX_UINT256
           \<and> lastAnalysis (portfolios s user) + minRebalanceInterval s \<le> now"
    using that by (simp add: triggerAutoRebalance_def v checked_add_def Let_def)
next
  assume "length sg' = 65"
  then show "recoverSigner ecrec h sg' =
          Inr (ecrec h (sg' ! 64) (word_of_nat (be_nat (take 32 sg')))
                 (word_of_nat (be_nat (take 32 (drop 32 sg')))))"
    by (simp add: recoverSigner_def slice_def Let_def)
qed

text \<open>
  At the sample vault, on the empty signature: the recovery reverts, a risk report
  for Bob reverts with the message, and so does the automatic rebalance of Bob's
  portfolio at time 5000 with deviation 300 (threshold 200, no analysis yet). On the
  65-byte signature with \<open>r = 1\<close>, \<open>s = 2\<close> and \<open>v = 27\<close> the recovery returns what
  \<open>ecrecover\<close> gives on these values.
\<close>

theorem C6_recoverSigner_reverts_on_length_witness:
  "length ([] :: bytes) \<noteq> 65
   \<and> recoverSigner (\<lambda>h v r s. word_of_nat (unat h + unat v + unat r + unat s)) 5 []
       = Inl (Require ''Invalid signature length'')
   \<and> submitRiskAnalysis sample_env 5000 bob
        \<lparr>portfolioScore = 80, concentrationRisk = 0, protocolRisk = 0, correlationRisk = 0,
         liquidityRisk = 0, leverageRatio = 0, timestamp = 60, teeAttestation = []\<rparr> [] vault_auto
       = Inl (Require ''Invalid signature length'')
   \<and> \<not> paused vault_auto \<and> autoRebalance (portfolios vault_auto bob)
   \<and> rebalanceThreshold (portfolios vault_auto bob) \<le> 300
   \<and> lastAnalysis (portfolios vault_auto bob) + minRebalanceInterval vault_auto \<le> MAX_UINT256
   \<and> lastAnalysis (portfolios vault_auto bob) + minRebalanceInterval vault_auto \<le> 5000
   \<and> triggerAutoRebalance sample_env 5000 bob 300 zero_Strategy [] vault_auto
       = Inl (Require ''Invalid signature length'')
   \<and> length (replicate 31 0 @ [1] @ replicate 31 0 @ [2, 27 :: byte]) = 65
   \<and> recoverSigner (\<lambda>h v r s. word_of_nat (unat h + unat v + unat r + unat s)) 5
        (replicate 31 0 @ [1] @ replicate 31 0 @ [2, 27])
       = Inr 35"
proof -
  let ?sg = "replicate 31 0 @ [1] @ replicate 31 0 @ [2, 27 :: byte]"
  have p: "\<not> paused vault_auto" "autoRebalance (portfolios vault_auto bob)"
    "rebalanceThreshold (portfolios vault_auto bob) \<le> 300"
    "lastAnalysis (portfolios vault_auto bob) + minRebalanceInterval vault_auto \<le> MAX_UINT256"
    "lastAnalysis (portfolios vault_auto bob) + minRebalanceInterval vault_auto \<le> 5000"
    by (simp_all add: vault_auto_def sample_vault_defs vault_defs)
  have l: "length ?sg = 65" by simp
  have v: "?sg ! 64 = 27" by (simp add: nth_append)
  have r: "be_nat (take 32 ?sg) = 1" by (simp add: be_nat_append be_nat_Cons)
  have s: "be_nat (take 32 (drop 32 ?sg)) = 2" by (simp add: be_nat_append be_nat_Cons)
  show ?thesis
    using p l v r s
      C6_recoverSigner_reverts_on_length[where sg = "[]"
        and ecrec = "\<lambda>h v r s. word_of_nat (unat h + unat v + unat r + unat s)" and h = 5
        and E = sample_env and now = 5000 and user = bob
        and report = "\<lparr>portfolioScore = 80, concentrationRisk = 0, protocolRisk = 0,
          correlationRisk = 0, liquidityRisk = 0, leverageRatio = 0, timestamp = 60,
          teeAttestation = []\<rparr>"
        and s = vault_auto and deviation = 300 and strategy = zero_Strategy and sg' = ?sg]
    by simp
qed

text \<open>
  The claim as stated fails: on the empty signature the recovery does not return an
  address, it reverts.
\<close>

theorem C6_counterexample:
  "recoverSigner (ecrecover sample_env) 0 [] = Inl (Require ''Invalid signature length'')"
  by (simp add: recoverSigner_def)

text \<open>
  C9. \<open>executeStrategy\<close> checks nothing about its caller: from the same storage, at the
  same time and on the same fingerprint, any two callers get the same error or the
  same resulting storage (only the emitted event names the caller). So every caller
  executes a valid strategy: on an unpaused vault with a strategy that is known, not
  executed and not expired, the call succeeds and sets the flag.
\<close>

theorem C9_executeStrategy_ignores_caller:
  "map_sum id fst (executeStrategy c1 t h s) = map_sum id fst (executeStrategy c2 t h s)
   \<and> (\<not> paused s \<and> isStrategyValid t h s \<and> totalStrategiesExecuted s < MAX_UINT256
      \<longrightarrow> (\<exists>s' evs. executeStrategy c1 t h s = Inr (s', evs) \<and> executed (strategies s' h)))"
  by (simp add: executeStrategy_def isStrategyValid_def checked_add_def Let_def
        split: sum.splits)

text \<open>
  At the sample vault: strategy 111 was submitted by Alice; Bob, who has no portfolio,
  executes it.
\<close>

theorem C9_executeStrategy_ignores_caller_witness:
  "\<not> paused (vault_run sample_env (take 1 resubmission) vault1)
   \<and> isStrategyValid 100 111 (vault_run sample_env (take 1 resubmission) vault1)
   \<and> totalStrategiesExecuted (vault_run sample_env (take 1 resubmission) vault1) < MAX_UINT256
   \<and> owner (getPortfolio bob (vault_run sample_env (take 1 resubmission) vault1)) = 0
   \<and> map_sum id fst (executeStrategy bob 100 111
                       (vault_run sample_env (take 1 resubmission) vault1))
       = map_sum id fst (executeStrategy alice 100 111
                          (vault_run sample_env (take 1 resubmission) vault1))
   \<and> (\<exists>s' evs. executeStrategy bob 100 111 (vault_run sample_env (take 1 resubmission) vault1)
                  = Inr (s', evs) \<and> executed (strategies s' 111))"
proof -
  let ?s = "vault_run sample_env (take 1 resubmission) vault1"
  have a: "\<not> paused ?s" "isStrategyValid 100 111 ?s"
    "totalStrategiesExecuted ?s < MAX_UINT256" "owner (getPortfolio bob ?s) = 0"
    by (simp_all add: resubmission_def sample_vault_defs vault_defs isStrategyValid_def
          getPortfolio_def)
  show ?thesis
    using a C9_executeStrategy_ignores_caller[of bob 100 111 ?s alice]
    by blast
qed

section \<open>Properties of the account\<close>

text \<open>
  The source's loop over the allowed targets is list membership.
\<close>

lemma targetAllowed_iff: "targetAllowed ts target \<longleftrightarrow> target \<in> set ts"
  by (induction ts) auto

text \<open>
  \<open>_validateSessionKeyOp\<close> never reads the key's selector list: replacing the list by
  any other leaves its result unchanged.
\<close>

lemma validateSessionKeyOp_ignores_allowedSelectors:
  "validateSessionKeyOp E (session\<lparr>allowedSelectors := sels\<rparr>) userOp
     = validateSessionKeyOp E session userOp"
  by (simp add: validateSessionKeyOp_def split: sum.splits)

text \<open>
  What the session-key path does enforce: a key that is inactive or past its expiry
  (and is not the owner) fails validation, and an \<open>execute\<close> call whose target is
  not in the key's target list fails validation.
\<close>

lemma validateSignature_rejects_inactive_or_expired:
  assumes "65 \<le> length (signature userOp)"
    and "ECDSA_recover E (toEthSignedMessageHash E userOpHash) (signature userOp) = Inr k"
    and "k \<noteq> account_owner acc"
    and "\<not> active (sessionKeys acc k) \<or> session_validUntil (sessionKeys acc k) < now"
  shows "validateSignature E now userOp userOpHash acc = Inr SIG_VALIDATION_FAILED"
  using assms by (auto simp: validateSignature_def Let_def)

lemma validateSessionKeyOp_rejects_foreign_target:
  assumes "36 \<le> length (callData userOp)"
    and "word_of_nat (be_nat (slice 0 4 (callData userOp))) = execute_selector E"
    and "abi_decode_address (slice 4 36 (callData userOp)) = Inr target"
    and "target \<notin> set (allowedTargets session)"
  shows "validateSessionKeyOp E session userOp = Inr False"
  using assms by (simp add: validateSessionKeyOp_def targetAllowed_iff)

text \<open>
  The path that authorises: a key that is active and not expired, on an \<open>execute\<close>
  call whose decoded target is in the key's target list.
\<close>

lemma validateSignature_accepts_allowed_target:
  assumes "65 \<le> length (signature userOp)"
    and "ECDSA_recover E (toEthSignedMessageHash E userOpHash) (signature userOp) = Inr k"
    and "active (sessionKeys acc k)" and "now \<le> session_validUntil (sessionKeys acc k)"
    and "36 \<le> length (callData userOp)"
    and "word_of_nat (be_nat (slice 0 4 (callData userOp))) = execute_selector E"
    and "abi_decode_address (slice 4 36 (callData userOp)) = Inr target"
    and "target \<in> set (allowedTargets (sessionKeys acc k))"
  shows "validateSignature E now userOp userOpHash acc = Inr 0"
  using assms
  by (simp add: validateSignature_def validateSessionKeyOp_def targetAllowed_iff Let_def)

text \<open>
  C1. The claim: an operation signed by a session key is rejected whenever its
  selector is not in the key's allowed-selector list. The code stores the list and
  never consults it. At time 500 the session key 20 of \<open>keyed_account\<close> is active and
  not expired, its selector list is \<open>[0x11223344]\<close>, and \<open>foreign_call\<close> is an
  \<open>execute\<close> call on the allowed target 5 whose inner selector is \<open>0xdeadbeef\<close>:
  neither the inner selector nor the selector of \<open>execute\<close> itself is in the list,
  and validation returns 0, the operation is authorised.
\<close>

theorem C1_selector_list_not_enforced:
  "validateSignature sample_account_env 500 foreign_call 0 keyed_account = Inr 0
   \<and> ECDSA_recover sample_account_env (toEthSignedMessageHash sample_account_env 0)
        (signature foreign_call) = Inr 20
   \<and> account_owner keyed_account = alice
   \<and> active (getSessionKey 20 keyed_account)
   \<and> session_validUntil (getSessionKey 20 keyed_account) = 1000
   \<and> allowedTargets (getSessionKey 20 keyed_account) = [5]
   \<and> allowedSelectors (getSessionKey 20 keyed_account) = [0x11223344]
   \<and> (word_of_nat (be_nat (slice 0 4 (callData foreign_call))) :: bytes4) = 0xb61d27f6
   \<and> abi_decode_address (slice 4 36 (callData foreign_call)) = Inr 5
   \<and> (word_of_nat (be_nat (slice 132 136 (callData foreign_call))) :: bytes4) = 0xdeadbeef"
  by (simp add: validateSignature_def validateSessionKeyOp_def foreign_call_def
        keyed_account_def sample_account_def sample_account_env_def createSessionKey_def
        commit_def alice_def word32_def slice_def be_nat_Cons be_nat_append
        abi_decode_address_def getSessionKey_def Let_def SIG_VALIDATION_FAILED_def)

text \<open>
  C10. Called by the owner, \<open>revokeSessionKey\<close> succeeds for every key address,
  created or not, revoked or not. Afterwards \<open>isSessionKeyActive\<close> is false for the
  key at every time. The call writes the key's active flag and nothing else: the
  owner, the vault address, the key list, the initialisation flag, every other session
  key and the other fields of this one are as before. When the key was already
  inactive the account's storage is unchanged; in particular a second call by the
  owner on the revoked key succeeds again and leaves the storage as the first left it.
\<close>

theorem C10_revokeSessionKey_total_idempotent:
  assumes "msg_sender = account_owner acc"
  shows "\<exists>acc' evs. revokeSessionKey msg_sender k acc = Inr (acc', evs)
           \<and> (\<forall>t. \<not> isSessionKeyActive t k acc')
           \<and> account_owner acc' = account_owner acc
           \<and> account_phantomVault acc' = account_phantomVault acc
           \<and> activeSessionKeys acc' = activeSessionKeys acc
           \<and> initialized acc' = initialized acc
           \<and> sessionKeys acc' k = (sessionKeys acc k)\<lparr>active := False\<rparr>
           \<and> (\<forall>k'. k' \<noteq> k \<longrightarrow> sessionKeys acc' k' = sessionKeys acc k')
           \<and> (\<not> active (sessionKeys acc k) \<longrightarrow> acc' = acc)
           \<and> (\<exists>evs'. revokeSessionKey msg_sender k acc' = Inr (acc', evs'))"
proof -
  let ?acc' = "acc\<lparr>sessionKeys := (sessionKeys acc)(k := (sessionKeys acc k)\<lparr>active := False\<rparr>)\<rparr>"
  have first: "revokeSessionKey msg_sender k acc = Inr (?acc', [SessionKeyRevoked k])"
    using assms by (simp add: revokeSessionKey_def)
  have idem: "?acc' = acc" if "\<not> active (sessionKeys acc k)"
  proof -
    from that have "(sessionKeys acc k)\<lparr>active := False\<rparr> = sessionKeys acc k" by simp
    then show ?thesis by simp
  qed
  have second: "revokeSessionKey msg_sender k ?acc' = Inr (?acc', [SessionKeyRevoked k])"
    using assms by (simp add: revokeSessionKey_def)
  have inactive: "\<forall>t. \<not> isSessionKeyActive t k ?acc'"
    by (simp add: isSessionKeyActive_def Let_def)
  from first idem second inactive show ?thesis by auto
qed

text \<open>
  On Alice's account: key 21 was never created and its revocation changes nothing;
  key 20 is active at time 500, its revocation gives \<open>revoked_account\<close>, which Alice
  still owns, and her second revocation of key 20 succeeds and returns the same
  storage.
\<close>

theorem C10_revokeSessionKey_total_idempotent_witness:
  "alice = account_owner keyed_account
   \<and> \<not> active (sessionKeys keyed_account 21)
   \<and> revokeSessionKey alice 21 keyed_account = Inr (keyed_account, [SessionKeyRevoked 21])
   \<and> isSessionKeyActive 500 20 keyed_account
   \<and> revokeSessionKey alice 20 keyed_account = Inr (revoked_account, [SessionKeyRevoked 20])
   \<and> \<not> isSessionKeyActive 500 20 revoked_account
   \<and> account_owner revoked_account = alice
   \<and> allowedTargets (sessionKeys revoked_account 20) = [5]
   \<and> revokeSessionKey alice 20 revoked_account = Inr (revoked_account, [SessionKeyRevoked 20])"
proof -
  have own: "alice = account_owner keyed_account"
    by (simp add: keyed_account_def sample_account_def createSessionKey_def commit_def)
  have fresh: "\<not> active (sessionKeys keyed_account 21)"
    by (simp add: keyed_account_def sample_account_def createSessionKey_def commit_def
          zero_SessionKey_def)
  have act: "isSessionKeyActive 500 20 keyed_account"
    by (simp add: keyed_account_def sample_account_def createSessionKey_def commit_def
          isSessionKeyActive_def)
  have targets: "allowedTargets (sessionKeys keyed_account 20) = [5]"
    by (simp add: keyed_account_def sample_account_def createSessionKey_def commit_def)
  from C10_revokeSessionKey_total_idempotent[OF own, of 21] fresh own
  have a: "revokeSessionKey alice 21 keyed_account = Inr (keyed_account, [SessionKeyRevoked 21])"
    by (auto simp: revokeSessionKey_def)
  from C10_revokeSessionKey_total_idempotent[OF own, of 20]
  obtain acc' evs where r: "revokeSessionKey alice 20 keyed_account = Inr (acc', evs)"
    and i: "\<forall>t. \<not> isSessionKeyActive t 20 acc'"
    and o: "account_owner acc' = account_owner keyed_account"
    and k: "sessionKeys acc' 20 = (sessionKeys keyed_account 20)\<lparr>active := False\<rparr>"
    and again: "\<exists>evs'. revokeSessionKey alice 20 acc' = Inr (acc', evs')"
    by blast
  from r have acc': "acc' = revoked_account"
    by (simp add: revoked_account_def commit_def)
  from r own have evs: "evs = [SessionKeyRevoked 20]"
    by (auto simp: revokeSessionKey_def)
  from again own o have b: "revokeSessionKey alice 20 acc' = Inr (acc', [SessionKeyRevoked 20])"
    by (auto simp: revokeSessionKey_def split: if_splits)
  from k targets have t: "allowedTargets (sessionKeys acc' 20) = [5]" by simp
  from own fresh a act r i o b t show ?thesis
    unfolding acc' evs by simp
qed

section \<open>Properties of the paymaster\<close>

text \<open>The sample operation: what the validator decodes from it.\<close>

lemma getTarget_sponsored_call: "getTarget (callData sponsored_call) = sample_vault_address"
  by (simp add: getTarget_def calldataload_def sponsored_call_def sample_vault_address_def
        be_nat_Cons be_nat_append)

lemma getSelector_sponsored_call: "getSelector (callData sponsored_call) = 0x18"
  by (simp add: getSelector_def calldataload_def sponsored_call_def be_nat_Cons be_nat_append)

lemma abi_target_sponsored_call:
  "abi_decode_address (slice 4 36 (callData sponsored_call)) = Inr sample_vault_address"
  by (simp add: abi_decode_address_def slice_def sponsored_call_def sample_vault_address_def
        be_nat_Cons be_nat_append)

text \<open>
  On the call data of \<open>foreign_call\<close>, the ABI encoding of \<open>execute(5, 0, data)\<close>,
  the address word decodes to 5 and \<open>_getTarget\<close> returns another value: the word it
  loads at offset 16 holds the address in its high 20 bytes, and the assignment to an
  \<open>address\<close> keeps the low 20.
\<close>

lemma getTarget_foreign_call:
  "abi_decode_address (slice 4 36 (callData foreign_call)) = Inr 5
   \<and> getTarget (callData foreign_call) = push_bit 96 5"
  by (simp add: getTarget_def calldataload_def abi_decode_address_def slice_def
        foreign_call_def word32_def be_nat_Cons be_nat_append)

lemma selector_of_sample:
  "paymaster_selector_of sample_paymaster_env sg = word_of_nat (length sg)"
  by (simp add: sample_paymaster_env_def)

lemma whitelisted_paymaster0: "whitelistedSelectors paymaster0 0x18"
  by (simp add: paymaster0_def PhantomPaymaster_constructor_def selector_of_sample)

lemma cosigned_sponsored_call: "cosigned sample_paymaster_env sponsored_call paymaster0"
  by (simp add: cosigned_def paymasterData_def paymaster0_def PhantomPaymaster_constructor_def
        sample_paymaster_env_def sponsored_call_def slice_def getHash_def)

text \<open>
  On the sample operation, once signer, target and selector pass, the validation is
  the daily-limit check.
\<close>

lemma validate_sponsored_call:
  assumes a: "getTarget (callData sponsored_call) = paymaster_phantomVault s"
    and b: "whitelistedSelectors s (getSelector (callData sponsored_call))"
    and c: "verifyingSigner s = 3"
  shows "validatePaymasterUserOp sample_paymaster_env now sponsored_call mc s =
     (case checkAndUpdateDailyLimit 30 now s of
        Inl e \<Rightarrow> Inl e
      | Inr s' \<Rightarrow> Inr (s', ((30, mc), packValidationData False 200 0)))"
proof -
  have sd: "sender sponsored_call = 30"
    and pd: "paymasterAndData sponsored_call =
               replicate 52 0 @ (3 # replicate 64 0) @ [0, 0, 0, 0, 0, 200] @ [0, 0, 0, 0, 0, 0]"
    by (simp_all add: sponsored_call_def)
  show ?thesis using a b c
    by (simp add: validatePaymasterUserOp_def sample_paymaster_env_def sd pd slice_def
          getHash_def be_nat_Cons Let_def split: sum.splits)
qed

text \<open>
  An accepted validation returns the storage of the daily-limit check, and a
  successful check changes the count of its user only.
\<close>

lemma validate_Inr_shape:
  assumes "validatePaymasterUserOp E now userOp maxCost s = Inr r"
  shows "checkAndUpdateDailyLimit (sender userOp) now s = Inr (fst r)"
  using assms
  by (auto simp: validatePaymasterUserOp_def Let_def split: sum.splits if_splits)

lemma check_Inr_count:
  assumes "checkAndUpdateDailyLimit u now s = Inr s'"
  shows "sponsoredTxCount s' = (sponsoredTxCount s)(u :=
           if dailyResetTime s u + 86400 < now then 1 else sponsoredTxCount s u + 1)"
  using assms
  by (auto simp: checkAndUpdateDailyLimit_def checked_add_def Let_def
        split: if_splits sum.splits)

text \<open>
  The decision of the validation as the code takes it. For a paymaster whose stored
  values are in range, it accepts exactly when the paymaster data holds at least 77
  bytes, the co-signature recovers to the verifying signer, the value \<open>_getTarget\<close>
  reads is the vault, the value \<open>_getSelector\<close> reads is whitelisted, and either the
  check opens a new day window or the sender's stored count is below the maximum. An
  accepted operation sets the sender's count to 1 in a new window and adds 1 to it
  otherwise.
\<close>

lemma validatePaymasterUserOp_decision:
  assumes "dailyResetTime s (sender userOp) + 86400 \<le> MAX_UINT256"
    and "maxDailySponsored s \<le> MAX_UINT256"
  shows "\<not> isl (validatePaymasterUserOp E now userOp maxCost s) \<longleftrightarrow>
            PAYMASTER_DATA_OFFSET E + 77 \<le> length (paymasterAndData userOp)
            \<and> cosigned E userOp s
            \<and> getTarget (callData userOp) = paymaster_phantomVault s
            \<and> whitelistedSelectors s (getSelector (callData userOp))
            \<and> (dailyResetTime s (sender userOp) + 86400 < now
                 \<or> sponsoredTxCount s (sender userOp) < maxDailySponsored s)"
proof -
  let ?u = "sender userOp"
  have lim: "\<not> isl (checkAndUpdateDailyLimit ?u now s) \<longleftrightarrow>
       (dailyResetTime s ?u + 86400 < now \<or> sponsoredTxCount s ?u < maxDailySponsored s)"
    using assms by (auto simp: checkAndUpdateDailyLimit_def checked_add_def Let_def)
  have dec: "\<not> isl (validatePaymasterUserOp E now userOp maxCost s) \<longleftrightarrow>
            PAYMASTER_DATA_OFFSET E + 77 \<le> length (paymasterAndData userOp)
            \<and> cosigned E userOp s
            \<and> getTarget (callData userOp) = paymaster_phantomVault s
            \<and> whitelistedSelectors s (getSelector (callData userOp))
            \<and> \<not> isl (checkAndUpdateDailyLimit ?u now s)"
    by (auto simp: validatePaymasterUserOp_def cosigned_def paymasterData_def Let_def
          split: sum.splits if_splits)
  from lim dec show ?thesis by blast
qed

lemma validatePaymasterUserOp_counts_once:
  assumes "validatePaymasterUserOp E now userOp maxCost s = Inr r"
  shows "sponsoredTxCount (fst r) = (sponsoredTxCount s)(sender userOp :=
           if dailyResetTime s (sender userOp) + 86400 < now then 1
           else sponsoredTxCount s (sender userOp) + 1)"
  using check_Inr_count[OF validate_Inr_shape[OF assms]] .

text \<open>The operation \<open>execute_call\<close>: what its call data holds and what is read.\<close>

lemma abi_target_execute_call:
  "abi_decode_address (slice 4 36 (callData execute_call)) = Inr sample_vault_address"
  by (simp add: abi_decode_address_def slice_def execute_call_def sample_vault_address_def
        be_nat_Cons be_nat_append)

lemma getTarget_execute_call:
  "getTarget (callData execute_call) = 0x1111111111111111000000000000000000000000"
  by (simp add: getTarget_def calldataload_def execute_call_def word32_def
        be_nat_Cons be_nat_append)

lemma getSelector_execute_call: "getSelector (callData execute_call) = 0xb61d27f6"
  by (simp add: getSelector_def calldataload_def execute_call_def word32_def
        be_nat_Cons be_nat_append)

lemma inner_selector_execute_call:
  "(word_of_nat (be_nat (slice 132 136 (callData execute_call))) :: bytes4) = 0x18"
  by (simp add: slice_def execute_call_def word32_def be_nat_Cons be_nat_append)

lemma paymaster_execute_eq:
  "paymaster_execute =
     paymaster0\<lparr>whitelistedSelectors := (whitelistedSelectors paymaster0)(0xb61d27f6 := True)\<rparr>"
  by (simp add: paymaster_execute_def whitelistSelector_def commit_def paymaster0_def
        PhantomPaymaster_constructor_def)

text \<open>
  C3. The claim: the validation accepts an operation whose decoded target is the
  vault, whose selector is whitelisted, whose co-signature recovers to the verifying
  signer and whose sender is below the daily cap. \<open>execute_call\<close> is such an
  operation on \<open>paymaster_execute\<close>: its call data is \<open>execute(vault, 0, data)\<close> and
  its address word decodes to the vault; the selector of \<open>execute\<close> and the selector
  of the inner call are both whitelisted; the co-signature recovers to the verifying
  signer; the sender's count is 0 and the maximum 10. The code rejects it with
  \<open>InvalidTarget\<close>: \<open>_getTarget\<close>, written for the format of \<open>execute\<close>, loads the
  word at offset 16 and keeps its low 160 bits, which are the last 8 bytes of the
  address followed by the first 12 bytes of the value.
\<close>

theorem C3_execute_call_to_vault_rejected:
  "validatePaymasterUserOp sample_paymaster_env 100000 execute_call 0 paymaster_execute
     = Inl InvalidTarget
   \<and> abi_decode_address (slice 4 36 (callData execute_call))
       = Inr (paymaster_phantomVault paymaster_execute)
   \<and> getTarget (callData execute_call) = 0x1111111111111111000000000000000000000000
   \<and> paymaster_phantomVault paymaster_execute = 0x1111111111111111111111111111111111111111
   \<and> cosigned sample_paymaster_env execute_call paymaster_execute
   \<and> whitelistedSelectors paymaster_execute (getSelector (callData execute_call))
   \<and> whitelistedSelectors paymaster_execute
        (word_of_nat (be_nat (slice 132 136 (callData execute_call))))
   \<and> sponsoredTxCount paymaster_execute (sender execute_call)
       < maxDailySponsored paymaster_execute"
proof -
  have sd: "sender execute_call = 30"
    and pd: "paymasterAndData execute_call =
               replicate 52 0 @ (3 # replicate 64 0) @ [0, 0, 0, 0, 0, 200] @ [0, 0, 0, 0, 0, 0]"
    by (simp_all add: execute_call_def)
  have vault: "paymaster_phantomVault paymaster_execute = 0x1111111111111111111111111111111111111111"
    by (simp add: paymaster_execute_eq paymaster0_def PhantomPaymaster_constructor_def
          sample_vault_address_def)
  have signer: "verifyingSigner paymaster_execute = 3"
    by (simp add: paymaster_execute_eq paymaster0_def PhantomPaymaster_constructor_def)
  have rej: "validatePaymasterUserOp sample_paymaster_env 100000 execute_call 0 paymaster_execute
               = Inl InvalidTarget"
    by (simp add: validatePaymasterUserOp_def sample_paymaster_env_def sd pd slice_def
          getHash_def be_nat_Cons Let_def getTarget_execute_call vault signer)
  have abi: "abi_decode_address (slice 4 36 (callData execute_call))
               = Inr (paymaster_phantomVault paymaster_execute)"
    by (simp add: abi_target_execute_call vault sample_vault_address_def)
  have cs: "cosigned sample_paymaster_env execute_call paymaster_execute"
    by (simp add: cosigned_def paymasterData_def sample_paymaster_env_def sd pd slice_def
          getHash_def signer)
  have w1: "whitelistedSelectors paymaster_execute (getSelector (callData execute_call))"
    by (simp add: getSelector_execute_call paymaster_execute_eq)
  have w2: "whitelistedSelectors paymaster_execute
              (word_of_nat (be_nat (slice 132 136 (callData execute_call))))"
    using whitelisted_paymaster0 by (simp add: inner_selector_execute_call paymaster_execute_eq)
  have cnt: "sponsoredTxCount paymaster_execute (sender execute_call)
               < maxDailySponsored paymaster_execute"
    by (simp add: paymaster_execute_eq paymaster0_def PhantomPaymaster_constructor_def)
  from rej abi getTarget_execute_call vault cs w1 w2 cnt show ?thesis by blast
qed

text \<open>
  Transactions that keep the cap keep the maximum at 1 or more and every count at or
  below it.
\<close>

lemma step_keeps_cap:
  assumes "paymaster_step E op s = Inr s'" and "cap_kept op s"
    and "1 \<le> maxDailySponsored s" and "\<forall>v. sponsoredTxCount s v \<le> maxDailySponsored s"
  shows "1 \<le> maxDailySponsored s'
           \<and> (\<forall>v. sponsoredTxCount s' v \<le> maxDailySponsored s')"
  using assms
  by (cases op)
     (auto simp: validatePaymasterUserOp_def checkAndUpdateDailyLimit_def checked_add_def
        setVerifyingSigner_def setPhantomVault_def setMaxDailySponsored_def
        whitelistSelector_def Let_def
        split: if_splits sum.splits)

lemma run_keeps_cap:
  assumes "cap_kept_run E ops s"
    and "1 \<le> maxDailySponsored s" and "\<forall>v. sponsoredTxCount s v \<le> maxDailySponsored s"
  shows "\<forall>v. sponsoredTxCount (paymaster_run E ops s) v
               \<le> maxDailySponsored (paymaster_run E ops s)"
  using assms
proof (induction ops arbitrary: s)
  case Nil
  then show ?case by simp
next
  case (Cons op ops)
  show ?case
  proof (cases "paymaster_step E op s")
    case (Inl e)
    with Cons.prems(1) have "cap_kept_run E ops s" by simp
    from Cons.IH[OF this Cons.prems(2) Cons.prems(3)] Inl show ?thesis by simp
  next
    case (Inr s')
    with Cons.prems(1) have kept: "cap_kept op s" and rest: "cap_kept_run E ops s'"
      by simp_all
    from step_keeps_cap[OF Inr kept Cons.prems(2) Cons.prems(3)]
    have k: "1 \<le> maxDailySponsored s'"
      and c: "\<forall>v. sponsoredTxCount s' v \<le> maxDailySponsored s'"
      by blast+
    from Cons.IH[OF rest k c] Inr show ?thesis by simp
  qed
qed

text \<open>The sample runs, evaluated.\<close>

lemmas paymaster_run_defs = validate_sponsored_call getTarget_sponsored_call
  getSelector_sponsored_call selector_of_sample checkAndUpdateDailyLimit_def
  checked_add_def MAX_UINT256_def Let_def setMaxDailySponsored_def paymaster0_def
  PhantomPaymaster_constructor_def

text \<open>
  C7, as amended. A check that opens a new day window (the current time exceeds the
  user's last reset time plus one day) sets the user's count to 1 and the reset time
  to the current time. In every state reached from the deployed paymaster by
  transactions in which no \<open>setMaxDailySponsored\<close> of the owner sets the maximum to 0
  or below a count stored at that moment, no count exceeds the configured maximum.
  Inside an open window a check of a user whose count has reached the maximum is
  refused with \<open>DailyLimitExceeded\<close>.
\<close>

theorem C7_daily_limit:
  "(dailyResetTime s1 u1 + 86400 < now1 \<and> now1 \<le> MAX_UINT256 \<longrightarrow>
      (\<exists>s'. checkAndUpdateDailyLimit u1 now1 s1 = Inr s' \<and> sponsoredTxCount s' u1 = 1
             \<and> dailyResetTime s' u1 = now1))
   \<and> (cap_kept_run E ops (PhantomPaymaster_constructor E owner0 signer vault) \<longrightarrow>
        (\<forall>v. sponsoredTxCount
                (paymaster_run E ops (PhantomPaymaster_constructor E owner0 signer vault)) v
              \<le> maxDailySponsored
                (paymaster_run E ops (PhantomPaymaster_constructor E owner0 signer vault))))
   \<and> (dailyResetTime s u + 86400 \<le> MAX_UINT256 \<and> now \<le> dailyResetTime s u + 86400
        \<and> maxDailySponsored s \<le> sponsoredTxCount s u \<longrightarrow>
        checkAndUpdateDailyLimit u now s = Inl DailyLimitExceeded)"
proof (intro conjI impI)
  assume "dailyResetTime s1 u1 + 86400 < now1 \<and> now1 \<le> MAX_UINT256"
  then show "\<exists>s'. checkAndUpdateDailyLimit u1 now1 s1 = Inr s' \<and> sponsoredTxCount s' u1 = 1
             \<and> dailyResetTime s' u1 = now1"
    by (simp add: checkAndUpdateDailyLimit_def checked_add_def Let_def)
next
  let ?s0 = "PhantomPaymaster_constructor E owner0 signer vault"
  assume a: "cap_kept_run E ops ?s0"
  have "1 \<le> maxDailySponsored ?s0" "\<forall>v. sponsoredTxCount ?s0 v \<le> maxDailySponsored ?s0"
    by (simp_all add: PhantomPaymaster_constructor_def)
  from run_keeps_cap[OF a this]
  show "\<forall>v. sponsoredTxCount (paymaster_run E ops ?s0) v
              \<le> maxDailySponsored (paymaster_run E ops ?s0)" .
next
  assume "dailyResetTime s u + 86400 \<le> MAX_UINT256 \<and> now \<le> dailyResetTime s u + 86400
        \<and> maxDailySponsored s \<le> sponsoredTxCount s u"
  then show "checkAndUpdateDailyLimit u now s = Inl DailyLimitExceeded"
    by (simp add: checkAndUpdateDailyLimit_def checked_add_def Let_def)
qed

text \<open>
  At the sample paymaster: the first check of sender 30 at time 100000 opens a window
  and counts 1. The run \<open>adjusted_cap\<close> keeps the cap although it sets the maximum,
  from 10 to 5 above the stored count 3; after it the count is 4 and no count exceeds
  the maximum 5. After \<open>full_cap\<close> the count has reached the maximum 3, and the check
  at time 100003, inside the window, is refused.
\<close>

theorem C7_daily_limit_witness:
  "dailyResetTime paymaster0 30 + 86400 < 100000 \<and> (100000 :: nat) \<le> MAX_UINT256
   \<and> (\<exists>s'. checkAndUpdateDailyLimit 30 100000 paymaster0 = Inr s'
             \<and> sponsoredTxCount s' 30 = 1 \<and> dailyResetTime s' 30 = 100000)
   \<and> cap_kept_run sample_paymaster_env adjusted_cap paymaster0
   \<and> sponsoredTxCount (paymaster_run sample_paymaster_env adjusted_cap paymaster0) 30 = 4
   \<and> maxDailySponsored (paymaster_run sample_paymaster_env adjusted_cap paymaster0) = 5
   \<and> (\<forall>v. sponsoredTxCount (paymaster_run sample_paymaster_env adjusted_cap paymaster0) v
            \<le> maxDailySponsored (paymaster_run sample_paymaster_env adjusted_cap paymaster0))
   \<and> dailyResetTime (paymaster_run sample_paymaster_env full_cap paymaster0) 30 + 86400
       \<le> MAX_UINT256
   \<and> 100003 \<le> dailyResetTime (paymaster_run sample_paymaster_env full_cap paymaster0) 30 + 86400
   \<and> maxDailySponsored (paymaster_run sample_paymaster_env full_cap paymaster0)
       \<le> sponsoredTxCount (paymaster_run sample_paymaster_env full_cap paymaster0) 30
   \<and> checkAndUpdateDailyLimit 30 100003 (paymaster_run sample_paymaster_env full_cap paymaster0)
       = Inl DailyLimitExceeded"
proof -
  let ?sa = "paymaster_run sample_paymaster_env adjusted_cap paymaster0"
  let ?sf = "paymaster_run sample_paymaster_env full_cap paymaster0"
  have a: "dailyResetTime paymaster0 30 + 86400 < 100000" "(100000 :: nat) \<le> MAX_UINT256"
    by (simp_all add: paymaster0_def PhantomPaymaster_constructor_def MAX_UINT256_def)
  have b: "cap_kept_run sample_paymaster_env adjusted_cap paymaster0"
    by (simp add: adjusted_cap_def paymaster_run_defs)
  have c: "sponsoredTxCount ?sa 30 = 4" "maxDailySponsored ?sa = 5"
    by (simp_all add: adjusted_cap_def paymaster_run_defs)
  have d: "dailyResetTime ?sf 30 + 86400 \<le> MAX_UINT256"
    "100003 \<le> dailyResetTime ?sf 30 + 86400"
    "maxDailySponsored ?sf \<le> sponsoredTxCount ?sf 30"
    by (simp_all add: full_cap_def paymaster_run_defs)
  have e: "paymaster0 = PhantomPaymaster_constructor sample_paymaster_env 1 3 sample_vault_address"
    by (simp add: paymaster0_def)
  show ?thesis
    using a b c d
      C7_daily_limit[of paymaster0 30 100000 sample_paymaster_env adjusted_cap 1 3
        sample_vault_address ?sf 30 100003]
    unfolding e [symmetric]
    by blast
qed

text \<open>
  The claim as stated fails in reachable states. After three sponsored operations of
  sender 30 in one day the owner sets the daily maximum to 2, and the count, 3,
  exceeds it. And after the owner set the maximum to 0, the check of sender 30 at
  time 100000 opens a new day window and sets the count to 1, above the maximum.
\<close>

theorem C7_counterexample:
  "sponsoredTxCount (paymaster_run sample_paymaster_env lowered_cap paymaster0) 30 = 3
   \<and> maxDailySponsored (paymaster_run sample_paymaster_env lowered_cap paymaster0) = 2
   \<and> sponsoredTxCount (paymaster_run sample_paymaster_env zero_cap paymaster0) 30 = 1
   \<and> maxDailySponsored (paymaster_run sample_paymaster_env zero_cap paymaster0) = 0"
  by (simp add: lowered_cap_def zero_cap_def paymaster_run_defs)

section \<open>Properties of the factory\<close>

text \<open>
  C8. The account that \<open>createAccount\<close> returns, deployed or found, is at the address
  \<open>getAddress\<close> derives for the owner and salt, and the derivation does not change
  with the deployment. When an agent is already at that address the call returns it
  and changes nothing; so a repeated call returns the same address and deploys
  nothing. While the account counter is below its maximum the call succeeds.
\<close>

theorem C8_createAccount_deterministic_idempotent:
  "(createAccount E owner0 salt f = Inr ((f', a), evs) \<longrightarrow>
      a = getAddress E owner0 salt f \<and> getAddress E owner0 salt f' = a
      \<and> agents f' a \<noteq> None
      \<and> createAccount E owner0 salt f' = Inr ((f', a), []))
   \<and> (agents f (getAddress E owner0 salt f) \<noteq> None \<longrightarrow>
        createAccount E owner0 salt f = Inr ((f, getAddress E owner0 salt f), []))
   \<and> (totalAccounts f < MAX_UINT256 \<longrightarrow>
        (\<exists>f' evs. createAccount E owner0 salt f
                     = Inr ((f', getAddress E owner0 salt f), evs)))"
  by (auto simp: createAccount_def getAddress_def Let_def initialize_def fresh_account_def
        checked_add_def split: if_splits sum.splits)

text \<open>
  At the sample factory: Alice's account for salt 7 is deployed at the derived
  address 118, initialised with Alice as owner, and the second call finds it there.
\<close>

theorem C8_createAccount_deterministic_idempotent_witness:
  "totalAccounts factory0 < MAX_UINT256
   \<and> getAddress sample_factory_env alice 7 factory0 = 118
   \<and> agents factory0 118 = None
   \<and> createAccount sample_factory_env alice 7 factory0
       = Inr ((factory1, 118), [AccountCreated alice 118 7])
   \<and> map_option account_owner (agents factory1 118) = Some alice
   \<and> totalAccounts factory1 = 1
   \<and> createAccount sample_factory_env alice 7 factory1 = Inr ((factory1, 118), [])"
proof -
  have a: "totalAccounts factory0 < MAX_UINT256" "agents factory0 118 = None"
    by (simp_all add: factory0_def MAX_UINT256_def)
  have b: "getAddress sample_factory_env alice 7 factory0 = 118"
    by (simp add: getAddress_def sample_factory_env_def factory0_def alice_def)
  have c: "createAccount sample_factory_env alice 7 factory0
             = Inr ((factory1, 118), [AccountCreated alice 118 7])"
    by (simp add: createAccount_def getAddress_def sample_factory_env_def factory0_def
          factory1_def alice_def initialize_def fresh_account_def checked_add_def
          MAX_UINT256_def Let_def)
  have d: "map_option account_owner (agents factory1 118) = Some alice"
    "totalAccounts factory1 = 1"
    by (simp_all add: factory1_def)
  show ?thesis
    using a b c d
      C8_createAccount_deterministic_idempotent[of sample_factory_env alice 7 factory0
        factory1 118 "[AccountCreated alice 118 7]"]
    by blast
qed


end
